theory Spec2Isabelle
  imports Main "HOL-Library.Word"
begin

section \<open>JavaScript values, exceptions and the built-ins the sources call\<close>

text \<open>
  The two sources are JavaScript: \<^verbatim>\<open>lib/utils/common.js\<close> (the session cache) and the
  query service (class \<^verbatim>\<open>QueryService\<close>). Values are dynamically typed, so the data the
  service probes (proposal results, decoded blocks, parsed JSON) is one datatype. Numbers
  are the integers, \<^verbatim>\<open>NaN\<close> and the infinities, the values that block numbers, status
  codes, lengths and radixes take; the datatype has no number with a fraction. A string
  is the list of its bytes in UTF-8; its length and its characters are those of the
  bytes, which are the ones of JavaScript for ASCII text. An association list stands for
  an object; the first binding of a key counts.
\<close>

type_synonym byte = "8 word"

datatype jsval =
    Undefined
  | Null
  | JBool bool
  | JNum int
  | JNaN
  | JInf bool
  | JStr string
  | JBuf "byte list"
  | JErr string string
  | JArr "jsval list"
  | JObj "(string \<times> jsval) list"

text \<open>
  \<open>JBuf\<close> is a \<^verbatim>\<open>Buffer\<close>, \<open>JErr name message\<close> an \<^verbatim>\<open>Error\<close> object, \<open>JInf neg\<close> is
  \<^verbatim>\<open>Infinity\<close> (\<open>neg\<close> for the negative one). A thrown exception is an \<^verbatim>\<open>Error\<close> object
  with its name and message; a function that can throw returns \<open>exn + 'a\<close>.
\<close>

datatype exn = Exn string string

fun exn_toString :: "exn \<Rightarrow> string" where
  "exn_toString (Exn n m) = (if n = [] then m else if m = [] then n else n @ '': '' @ m)"

definition TypeError :: "string \<Rightarrow> exn" where
  "TypeError m = Exn ''TypeError'' m"

definition ReferenceError :: "string \<Rightarrow> exn" where
  "ReferenceError ident = Exn ''ReferenceError'' (ident @ '' is not defined'')"

text \<open>
  Reading an identifier that no declaration in scope binds throws a \<^verbatim>\<open>ReferenceError\<close>.
  The sources read eight such identifiers: \<^verbatim>\<open>util\<close> in \<^verbatim>\<open>common.js\<close>, which requires
  \<^verbatim>\<open>fabric-client\<close>, \<^verbatim>\<open>prom-client\<close> and the logger only; and in the query service,
  which requires \<^verbatim>\<open>util\<close>, the logger and \<^verbatim>\<open>common\<close> only, the names \<^verbatim>\<open>asn\<close>,
  \<^verbatim>\<open>sha\<close>, \<^verbatim>\<open>orgName\<close>, \<^verbatim>\<open>userName\<close> and \<^verbatim>\<open>channelName\<close>, the \<^verbatim>\<open>convertObj\<close> of a
  \<^verbatim>\<open>catch\<close> block outside the \<^verbatim>\<open>try\<close> block that declares it, and the \<^verbatim>\<open>error\<close> of a
  handler whose parameter is \<^verbatim>\<open>err\<close>.
\<close>

definition unbound :: "string \<Rightarrow> exn + 'a" where
  "unbound ident = Inl (ReferenceError ident)"

text \<open>\<^verbatim>\<open>try { body } catch (e) { handler }\<close>.\<close>

definition try_catch :: "exn + 'a \<Rightarrow> (exn \<Rightarrow> exn + 'a) \<Rightarrow> exn + 'a" where
  "try_catch body handler = (case body of Inl e \<Rightarrow> handler e | Inr v \<Rightarrow> Inr v)"

text \<open>Sequencing of calls that can throw.\<close>

definition bind :: "exn + 'a \<Rightarrow> ('a \<Rightarrow> exn + 'b) \<Rightarrow> exn + 'b" where
  "bind m f = (case m of Inl e \<Rightarrow> Inl e | Inr v \<Rightarrow> f v)"

text \<open>Truthiness, as \<^verbatim>\<open>if (v)\<close> and \<^verbatim>\<open>!v\<close> read a value.\<close>

fun truthy :: "jsval \<Rightarrow> bool" where
  "truthy Undefined = False"
| "truthy Null = False"
| "truthy (JBool b) = b"
| "truthy (JNum n) = (n \<noteq> 0)"
| "truthy JNaN = False"
| "truthy (JStr s) = (s \<noteq> [])"
| "truthy _ = True"

text \<open>
  A JavaScript number is a double: an integer of magnitude \<open>2\<^sup>5\<^sup>3\<close> or more is rounded to
  the nearest double (ties to even), and to \<^verbatim>\<open>Infinity\<close> from \<open>2\<^sup>1\<^sup>0\<^sup>2\<^sup>4\<close> on.
\<close>

function bitlen :: "int \<Rightarrow> nat" where
  "bitlen i = (if i \<le> 0 then 0 else Suc (bitlen (i div 2)))"
  by pat_completeness auto
termination
  by (relation "measure nat") auto

definition to_double :: "int \<Rightarrow> jsval" where
  "to_double i =
     (let a = \<bar>i\<bar> in
      if a < 2 ^ 53 then JNum i
      else let e = bitlen a - 53;
               q = a div 2 ^ e;
               r = a mod 2 ^ e;
               h = 2 ^ (e - 1);
               q' = (if h < r \<or> (r = h \<and> odd q) then q + 1 else q);
               v = q' * 2 ^ e
           in if 2 ^ 1024 \<le> v then JInf (i < 0)
              else JNum (if i < 0 then - v else v))"

text \<open>Decimal digits of a number, for \<^verbatim>\<open>ToString\<close> and for numeric property keys.\<close>

definition digit_char :: "nat \<Rightarrow> char" where
  "digit_char d =
     (if d = 0 then CHR ''0'' else if d = 1 then CHR ''1'' else if d = 2 then CHR ''2''
      else if d = 3 then CHR ''3'' else if d = 4 then CHR ''4'' else if d = 5 then CHR ''5''
      else if d = 6 then CHR ''6'' else if d = 7 then CHR ''7'' else if d = 8 then CHR ''8''
      else CHR ''9'')"

function decimal :: "int \<Rightarrow> string" where
  "decimal n =
     (if n < 10 then [digit_char (nat n)] else decimal (n div 10) @ [digit_char (nat (n mod 10))])"
  by pat_completeness auto
termination
  by (relation "measure nat") auto

text \<open>
  An integer below \<open>2\<^sup>5\<^sup>3\<close> prints with all its digits. A larger one prints with the
  fewest digits that still denote the same double, then zeros, and from 22 digits on in
  exponent notation. \<open>shortest fuel k v n\<close> is the search for these digits of a number
  \<open>v\<close> of \<open>n\<close> digits, from \<open>k\<close> digits on: \<open>(s, z)\<close> stands for \<open>s\<close> followed by \<open>z\<close>
  zeros; of two candidates the nearer to \<open>v\<close> wins, and 17 digits always suffice.
\<close>

fun shortest :: "nat \<Rightarrow> nat \<Rightarrow> int \<Rightarrow> nat \<Rightarrow> int \<times> nat" where
  "shortest 0 k v n = (v, 0)"
| "shortest (Suc fuel) k v n =
     (if n \<le> k then (v, 0)
      else let p = 10 ^ (n - k);
               lo = v div p;
               hi = lo + 1;
               lo_ok = (to_double (lo * p) = JNum v);
               hi_ok = (to_double (hi * p) = JNum v)
           in if lo_ok \<and> hi_ok
              then (if v - lo * p < hi * p - v \<or> (v - lo * p = hi * p - v \<and> even lo)
                    then (lo, n - k) else (hi, n - k))
              else if lo_ok then (lo, n - k)
              else if hi_ok then (hi, n - k)
              else shortest fuel (Suc k) v n)"

definition show_double :: "int \<Rightarrow> string" where
  "show_double v =
     (case shortest 17 1 v (length (decimal v)) of
        (s, z) \<Rightarrow>
          let ds = decimal s @ replicate z (CHR ''0'');
              m = rev (dropWhile (\<lambda>c. c = CHR ''0'') (rev (decimal s)))
          in if length ds \<le> 21 then ds
             else (if length m = 1 then m else hd m # CHR ''.'' # tl m)
                    @ ''e+'' @ decimal (int (length ds) - 1))"

definition show_int :: "int \<Rightarrow> string" where
  "show_int i =
     (if \<bar>i\<bar> < 2 ^ 53 then (if i < 0 then CHR ''-'' # decimal (- i) else decimal i)
      else if i < 0 then CHR ''-'' # show_double (- i) else show_double i)"

text \<open>
  \<^verbatim>\<open>buffer.toString('utf8')\<close>: a well-formed sequence of bytes is the character it
  encodes, and every ill-formed part becomes U+FFFD, whose bytes are \<open>EF BF BD\<close>. This is
  the decoder of the Encoding standard: \<open>needed\<close> counts the continuation bytes still
  to come, \<open>lo\<close> and \<open>hi\<close> bound the next of them, \<open>pending\<close> holds the bytes of the
  character so far, and a byte that cannot continue the character is read again as the
  start of the next one.
\<close>

definition replacement :: string where
  "replacement = [CHR 0xEF, CHR 0xBF, CHR 0xBD]"

definition byte_char :: "byte \<Rightarrow> char" where
  "byte_char b = char_of (unat b)"

fun utf8_decode :: "nat \<Rightarrow> nat \<Rightarrow> nat \<Rightarrow> byte list \<Rightarrow> byte list \<Rightarrow> string" where
  "utf8_decode needed lo hi pending [] = (if needed = 0 then [] else replacement)"
| "utf8_decode needed lo hi pending (b # bs) =
     (let n = unat b in
      if needed = 0 then
        (if n < 0x80 then byte_char b # utf8_decode 0 0x80 0xBF [] bs
         else if 0xC2 \<le> n \<and> n \<le> 0xDF then utf8_decode 1 0x80 0xBF [b] bs
         else if n = 0xE0 then utf8_decode 2 0xA0 0xBF [b] bs
         else if n = 0xED then utf8_decode 2 0x80 0x9F [b] bs
         else if 0xE1 \<le> n \<and> n \<le> 0xEF then utf8_decode 2 0x80 0xBF [b] bs
         else if n = 0xF0 then utf8_decode 3 0x90 0xBF [b] bs
         else if n = 0xF4 then utf8_decode 3 0x80 0x8F [b] bs
         else if 0xF1 \<le> n \<and> n \<le> 0xF3 then utf8_decode 3 0x80 0xBF [b] bs
         else replacement @ utf8_decode 0 0x80 0xBF [] bs)
      else if lo \<le> n \<and> n \<le> hi then
        (if needed = 1 then map byte_char (pending @ [b]) @ utf8_decode 0 0x80 0xBF [] bs
         else utf8_decode (needed - 1) 0x80 0xBF (pending @ [b]) bs)
      else replacement @ utf8_decode 0 0x80 0xBF [] (b # bs))"

definition utf8 :: "byte list \<Rightarrow> string" where
  "utf8 bs = utf8_decode 0 0x80 0xBF [] bs"

text \<open>
  \<^verbatim>\<open>ToString\<close>. An array joins its elements with commas, where \<^verbatim>\<open>null\<close> and
  \<^verbatim>\<open>undefined\<close> elements give the empty string; a plain object gives
  \<^verbatim>\<open>[object Object]\<close>; a buffer gives its bytes decoded as UTF-8.
\<close>

fun join_commas :: "string list \<Rightarrow> string" where
  "join_commas [] = []"
| "join_commas [s] = s"
| "join_commas (s # t # ss) = s @ '','' @ join_commas (t # ss)"

fun js_toString :: "jsval \<Rightarrow> string" where
  "js_toString Undefined = ''undefined''"
| "js_toString Null = ''null''"
| "js_toString (JBool b) = (if b then ''true'' else ''false'')"
| "js_toString (JNum n) = show_int n"
| "js_toString JNaN = ''NaN''"
| "js_toString (JInf neg) = (if neg then ''-Infinity'' else ''Infinity'')"
| "js_toString (JStr s) = s"
| "js_toString (JBuf b) = utf8 b"
| "js_toString (JErr n m) = exn_toString (Exn n m)"
| "js_toString (JArr xs) =
     join_commas (map (\<lambda>x. if x = Undefined \<or> x = Null then [] else js_toString x) xs)"
| "js_toString (JObj kvs) = ''[object Object]''"

text \<open>
  Property read \<^verbatim>\<open>v.k\<close>: a \<^verbatim>\<open>TypeError\<close> on \<^verbatim>\<open>undefined\<close> and \<^verbatim>\<open>null\<close>, the
  bound value or \<^verbatim>\<open>undefined\<close> otherwise. The values carry no functions, so a method
  is modelled where it is called. The message of the \<^verbatim>\<open>TypeError\<close> is the one of V8
  since Node 16, \<^verbatim>\<open>Cannot read properties of undefined (reading 'k')\<close>; earlier versions
  word it \<^verbatim>\<open>Cannot read property 'k' of undefined\<close>.
\<close>

definition cannot_read :: "string \<Rightarrow> jsval \<Rightarrow> exn" where
  "cannot_read k v =
     TypeError (''Cannot read properties of '' @ js_toString v @ '' (reading '' @ [CHR 0x27] @ k
                  @ [CHR 0x27] @ '')'')"

fun get_prop :: "jsval \<Rightarrow> string \<Rightarrow> exn + jsval" where
  "get_prop Undefined k = Inl (cannot_read k Undefined)"
| "get_prop Null k = Inl (cannot_read k Null)"
| "get_prop (JObj kvs) k = Inr (case map_of kvs k of Some v \<Rightarrow> v | None \<Rightarrow> Undefined)"
| "get_prop (JArr xs) k = Inr (if k = ''length'' then JNum (int (length xs)) else Undefined)"
| "get_prop (JStr s) k = Inr (if k = ''length'' then JNum (int (length s)) else Undefined)"
| "get_prop (JBuf b) k = Inr (if k = ''length'' then JNum (int (length b)) else Undefined)"
| "get_prop (JErr n m) k =
     Inr (if k = ''message'' then JStr m else if k = ''name'' then JStr n else Undefined)"
| "get_prop _ k = Inr Undefined"

text \<open>Indexed read \<^verbatim>\<open>v[i]\<close> for an integer \<open>i\<close>; out of range is \<^verbatim>\<open>undefined\<close>.\<close>

fun get_index :: "jsval \<Rightarrow> int \<Rightarrow> exn + jsval" where
  "get_index Undefined i = Inl (cannot_read (show_int i) Undefined)"
| "get_index Null i = Inl (cannot_read (show_int i) Null)"
| "get_index (JArr xs) i =
     Inr (if 0 \<le> i \<and> nat i < length xs then xs ! nat i else Undefined)"
| "get_index (JStr s) i =
     Inr (if 0 \<le> i \<and> nat i < length s then JStr [s ! nat i] else Undefined)"
| "get_index (JBuf b) i =
     Inr (if 0 \<le> i \<and> nat i < length b then JNum (uint (b ! nat i)) else Undefined)"
| "get_index (JObj kvs) i =
     Inr (case map_of kvs (show_int i) of Some v \<Rightarrow> v | None \<Rightarrow> Undefined)"
| "get_index _ i = Inr Undefined"

text \<open>
  \<^verbatim>\<open>util.format\<close> of Node, for arguments that are strings already: \<^verbatim>\<open>%s\<close> takes the
  next argument, \<^verbatim>\<open>%%\<close> is a percent sign, any other character stands for itself, and
  the arguments left over are appended, each after a space. The two format strings of
  the sources hold one \<^verbatim>\<open>%s\<close> and one bare \<^verbatim>\<open>%\<close>.
\<close>

fun util_format :: "string \<Rightarrow> string list \<Rightarrow> string" where
  "util_format [] args = concat (map (\<lambda>a. CHR '' '' # a) args)"
| "util_format [c] args = c # util_format [] args"
| "util_format (c # d # cs) args =
     (if c = CHR ''%'' \<and> d = CHR ''s'' then
        (case args of
           [] \<Rightarrow> c # d # util_format cs []
         | a # rest \<Rightarrow> a @ util_format cs rest)
      else if c = CHR ''%'' \<and> d = CHR ''%'' then CHR ''%'' # util_format cs args
      else c # util_format (d # cs) args)"

section \<open>The session cache: \<^verbatim>\<open>lib/utils/common.js\<close>\<close>

text \<open>
  \<^verbatim>\<open>global.CLIENT\<close> and \<^verbatim>\<open>global.CHANNEL\<close> are the two process-wide slots, \<^verbatim>\<open>null\<close>
  at start. A client or channel handle is the identity of the object: the SDK's
  \<^verbatim>\<open>hfc.loadFromConfig\<close> builds a new \<^verbatim>\<open>Client\<close> object on every call, so the model
  numbers the objects built and \<open>built\<close> counts them.
\<close>

type_synonym client = nat
type_synonym channel = nat

record session =
  CLIENT :: "client option"
  CHANNEL :: "channel option"
  built :: nat

text \<open>
  The SDK (\<^verbatim>\<open>fabric-client\<close>), the ledger network and the process environment are outside
  the repository: each call the sources make is a field here. A call that can throw
  gives \<open>Some e\<close> or \<open>Inl e\<close> for the exception. \<open>JSON_parse\<close> gives \<open>None\<close> where
  \<^verbatim>\<open>JSON.parse\<close> throws its \<^verbatim>\<open>SyntaxError\<close>. The calls of the logger only write, and
  are left out, except where evaluating their argument throws.
\<close>

record fabric =
  process_env :: "string \<Rightarrow> string option"
  getConfigSetting :: "string \<Rightarrow> jsval"
  hfc_loadFromConfig :: "jsval \<Rightarrow> exn option"
  client_loadFromConfig :: "client \<Rightarrow> jsval \<Rightarrow> exn option"
  initCredentialStores :: "client \<Rightarrow> exn option"
  getUserContext :: "client \<Rightarrow> string \<Rightarrow> exn + bool"
  getUserContext_current :: "client \<Rightarrow> bool"
  client_getChannel :: "client \<Rightarrow> string option \<Rightarrow> exn + channel option"
  newTransactionID :: "client \<Rightarrow> exn + jsval"
  sendTransactionProposal :: "channel \<Rightarrow> jsval \<Rightarrow> exn + jsval"
  queryBlock :: "channel \<Rightarrow> jsval \<Rightarrow> exn + jsval"
  queryBlockByHash :: "channel \<Rightarrow> byte list \<Rightarrow> jsval \<Rightarrow> exn + jsval"
  queryTransaction :: "channel \<Rightarrow> jsval \<Rightarrow> jsval \<Rightarrow> exn + jsval"
  queryInfo :: "channel \<Rightarrow> jsval \<Rightarrow> exn + jsval"
  JSON_parse :: "string \<Rightarrow> jsval option"

text \<open>
  A name argument is a string or \<^verbatim>\<open>undefined\<close> (\<open>None\<close>). \<^verbatim>\<open>a || b\<close> is \<open>b\<close> when \<open>a\<close>
  is \<^verbatim>\<open>undefined\<close> or empty.
\<close>

definition name_or :: "string option \<Rightarrow> string option \<Rightarrow> string option" where
  "name_or a b = (case a of None \<Rightarrow> b | Some s \<Rightarrow> if s = [] then b else Some s)"

definition name_truthy :: "string option \<Rightarrow> bool" where
  "name_truthy a = (case a of None \<Rightarrow> False | Some s \<Rightarrow> s \<noteq> [])"

definition name_toString :: "string option \<Rightarrow> string" where
  "name_toString a = (case a of None \<Rightarrow> ''undefined'' | Some s \<Rightarrow> s)"

text \<open>
  \<^verbatim>\<open>getClientForOrg(orgName, userName, isRefresh)\<close>, lines 29 to 64. \<open>getUserContext F c u\<close>
  is \<^verbatim>\<open>await client.getUserContext(userName, true)\<close> and says whether a context was
  found; \<open>getUserContext_current F c\<close> is \<^verbatim>\<open>client.getUserContext()\<close>, the context the
  client holds already. Line 51, \<^verbatim>\<open>throw new Error(util.format('User % was not found :',
  userName))\<close>, reads \<^verbatim>\<open>util\<close> first, which \<^verbatim>\<open>common.js\<close> binds nowhere: the
  \<^verbatim>\<open>ReferenceError\<close> leaves the function before the \<^verbatim>\<open>Error\<close> is built.
\<close>

definition getClientForOrg ::
  "fabric \<Rightarrow> session \<Rightarrow> string option \<Rightarrow> string option \<Rightarrow> bool \<Rightarrow> (exn + client) \<times> session" where
  "getClientForOrg F s orgName userName isRefresh =
     (case (if isRefresh then None else CLIENT s) of
        Some cached \<Rightarrow> (Inr cached, s)
      | None \<Rightarrow>
          let orgName' = name_or orgName (process_env F ''ORG_NAME'');
              userName' = name_or userName (process_env F ''USER_NAME'')
          in (case hfc_loadFromConfig F (getConfigSetting F ''network-connection-profile-path'') of
                Some e \<Rightarrow> (Inl e, s)
              | None \<Rightarrow>
                  let client = built s;
                      s1 = s\<lparr>built := Suc (built s)\<rparr>
                  in (case client_loadFromConfig F client
                             (getConfigSetting F (name_toString orgName' @ ''-connection-profile-path'')) of
                        Some e \<Rightarrow> (Inl e, s1)
                      | None \<Rightarrow>
                          (case initCredentialStores F client of
                             Some e \<Rightarrow> (Inl e, s1)
                           | None \<Rightarrow>
                               if name_truthy userName' then
                                 (case getUserContext F client (name_toString userName') of
                                    Inl e \<Rightarrow> (Inl e, s1)
                                  | Inr found \<Rightarrow>
                                      if \<not> found \<and> \<not> getUserContext_current F client
                                      then (bind (unbound ''util'') (\<lambda>util :: unit.
                                                    Inl (Exn ''Error''
                                                           (util_format ''User % was not found :''
                                                              [name_toString userName']))), s1)
                                      else (Inr client, s1\<lparr>CLIENT := Some client\<rparr>))
                               else (Inr client, s1\<lparr>CLIENT := Some client\<rparr>)))))"

text \<open>\<^verbatim>\<open>getChannel(orgName, userName, channelName, isRefresh)\<close>, lines 72 to 89.\<close>

definition getChannel ::
  "fabric \<Rightarrow> session \<Rightarrow> string option \<Rightarrow> string option \<Rightarrow> string option \<Rightarrow> bool
     \<Rightarrow> (exn + channel option) \<times> session" where
  "getChannel F s orgName userName channelName isRefresh =
     (case (if isRefresh then None else CHANNEL s) of
        Some cached \<Rightarrow> (Inr (Some cached), s)
      | None \<Rightarrow>
          let orgName' = name_or orgName (process_env F ''ORG_NAME'');
              userName' = name_or userName (process_env F ''USER_NAME'');
              channelName' = name_or channelName (process_env F ''CHANNEL_NAME'');
              (r, s1) = (case CLIENT s of
                           Some c \<Rightarrow> (Inr c, s)
                         | None \<Rightarrow>
                             (case getClientForOrg F s orgName' userName' False of
                                (Inl e, s') \<Rightarrow> (Inl e, s')
                              | (Inr c, s') \<Rightarrow> (Inr c, s'\<lparr>CLIENT := Some c\<rparr>)))
          in (case r of
                Inl e \<Rightarrow> (Inl e, s1)
              | Inr c \<Rightarrow>
                  (case client_getChannel F c channelName' of
                     Inl e \<Rightarrow> (Inl e, s1)
                   | Inr ch \<Rightarrow> (Inr ch, s1\<lparr>CHANNEL := ch\<rparr>))))"

text \<open>A session as the process can reach it: the cached client is one of those built.\<close>

definition session_ok :: "session \<Rightarrow> bool" where
  "session_ok s = (case CLIENT s of None \<Rightarrow> True | Some c \<Rightarrow> c < built s)"

definition init_session :: session where
  "init_session = \<lparr>CLIENT = None, CHANNEL = None, built = 0\<rparr>"

section \<open>Conversions to a number, \<^verbatim>\<open>parseInt\<close> and \<^verbatim>\<open>Buffer.from(_, 'hex')\<close>\<close>

text \<open>
  White space and line terminators of the language, in UTF-8: the length in bytes of
  such a character at the start of the string, 0 when there is none. They are the
  characters 9 to 13 and 32, and U+00A0, U+1680, U+2000 to U+200A, U+2028, U+2029,
  U+202F, U+205F, U+3000 and U+FEFF.
\<close>

definition space_prefix :: "string \<Rightarrow> nat" where
  "space_prefix s =
     (case s of
        [] \<Rightarrow> 0
      | c # cs \<Rightarrow>
          let n = (of_char c :: nat);
              m = (case drop 2 s of [] \<Rightarrow> 0 | d # ds \<Rightarrow> (of_char d :: nat))
          in if n = 32 \<or> (9 \<le> n \<and> n \<le> 13) then 1
             else if take 2 s = [CHR 0xC2, CHR 0xA0] then 2
             else if take 3 s = [CHR 0xE1, CHR 0x9A, CHR 0x80] then 3
             else if take 2 s = [CHR 0xE2, CHR 0x80] \<and>
                     ((0x80 \<le> m \<and> m \<le> 0x8A) \<or> m = 0xA8 \<or> m = 0xA9 \<or> m = 0xAF) then 3
             else if take 3 s = [CHR 0xE2, CHR 0x81, CHR 0x9F] then 3
             else if take 3 s = [CHR 0xE3, CHR 0x80, CHR 0x80] then 3
             else if take 3 s = [CHR 0xEF, CHR 0xBB, CHR 0xBF] then 3
             else 0)"

text \<open>The string without the white space at its start, and at its end.\<close>

function drop_space :: "string \<Rightarrow> string" where
  "drop_space s = (if space_prefix s = 0 then s else drop_space (drop (space_prefix s) s))"
  by pat_completeness auto
termination
proof (relation "measure length")
  show "wf (measure length)" by simp
next
  fix s :: string
  assume "space_prefix s \<noteq> 0"
  moreover from this have "s \<noteq> []" by (auto simp: space_prefix_def)
  ultimately show "(drop (space_prefix s) s, s) \<in> measure length" by simp
qed

fun drop_space_end :: "string \<Rightarrow> string" where
  "drop_space_end [] = []"
| "drop_space_end (c # cs) = (if drop_space (c # cs) = [] then [] else c # drop_space_end cs)"

text \<open>The value of a digit in a radix up to 36, \<open>None\<close> for any other character.\<close>

definition digit_val :: "nat \<Rightarrow> char \<Rightarrow> nat option" where
  "digit_val radix c =
     (let n = (of_char c :: nat);
          v = (if 48 \<le> n \<and> n \<le> 57 then Some (n - 48)
               else if 97 \<le> n \<and> n \<le> 122 then Some (n - 87)
               else if 65 \<le> n \<and> n \<le> 90 then Some (n - 55)
               else None)
      in case v of None \<Rightarrow> None | Some d \<Rightarrow> if d < radix then Some d else None)"

text \<open>The digits at the start of a string, read in the radix; \<open>None\<close> when there is none.\<close>

fun leading_digits :: "nat \<Rightarrow> string \<Rightarrow> int option \<Rightarrow> int option" where
  "leading_digits radix [] acc = acc"
| "leading_digits radix (c # cs) acc =
     (case digit_val radix c of
        None \<Rightarrow> acc
      | Some d \<Rightarrow> leading_digits radix cs (Some ((case acc of None \<Rightarrow> 0 | Some a \<Rightarrow> a) * int radix + int d)))"

definition has_hex_prefix :: "string \<Rightarrow> bool" where
  "has_hex_prefix s = (take 2 s = ''0x'' \<or> take 2 s = ''0X'')"

text \<open>
  The number a string denotes (\<^verbatim>\<open>StringToNumber\<close>). Between optional white space
  stands nothing (the number 0), a hexadecimal, octal or binary integer after \<^verbatim>\<open>0x\<close>,
  \<^verbatim>\<open>0o\<close> or \<^verbatim>\<open>0b\<close>, or an optional sign and then \<^verbatim>\<open>Infinity\<close> or a decimal:
  digits, a fraction that may lack the digits on one side of its point, and an exponent.
  \<open>Decimal neg D x\<close> is the number \<open>D \<cdot> 10\<^sup>x\<close>, negated when \<open>neg\<close>; any other string is
  \<^verbatim>\<open>NaN\<close>.
\<close>

datatype numeral = Not_a_number | Infinite bool | Decimal bool int int

definition all_digits :: "nat \<Rightarrow> string \<Rightarrow> bool" where
  "all_digits radix s = (s \<noteq> [] \<and> list_all (\<lambda>c. digit_val radix c \<noteq> None) s)"

definition digits_value :: "nat \<Rightarrow> string \<Rightarrow> int" where
  "digits_value radix ds = (case leading_digits radix ds None of None \<Rightarrow> 0 | Some v \<Rightarrow> v)"

definition has_sign :: "string \<Rightarrow> bool" where
  "has_sign s = (take 1 s = ''-'' \<or> take 1 s = ''+'')"

text \<open>The exponent after \<^verbatim>\<open>e\<close>: an optional sign and at least one digit.\<close>

definition exponent_value :: "string \<Rightarrow> int option" where
  "exponent_value s =
     (let ds = (if has_sign s then drop 1 s else s) in
      if all_digits 10 ds
      then Some (if take 1 s = ''-'' then - digits_value 10 ds else digits_value 10 ds)
      else None)"

text \<open>An unsigned decimal: \<open>(D, x)\<close> for the number \<open>D \<cdot> 10\<^sup>x\<close>.\<close>

definition unsigned_decimal :: "string \<Rightarrow> (int \<times> int) option" where
  "unsigned_decimal s =
     (let mantissa = takeWhile (\<lambda>c. c \<noteq> CHR ''e'' \<and> c \<noteq> CHR ''E'') s;
          after = drop (length mantissa) s;
          whole = takeWhile (\<lambda>c. c \<noteq> CHR ''.'') mantissa;
          fraction = drop (Suc (length whole)) mantissa;
          D = digits_value 10 (whole @ fraction)
      in if \<not> list_all (\<lambda>c. digit_val 10 c \<noteq> None) (whole @ fraction) \<or> whole @ fraction = []
         then None
         else if after = [] then Some (D, - int (length fraction))
         else (case exponent_value (drop 1 after) of
                 None \<Rightarrow> None
               | Some x \<Rightarrow> Some (D, x - int (length fraction))))"

definition string_toNumber :: "string \<Rightarrow> numeral" where
  "string_toNumber s0 =
     (let s = drop_space_end (drop_space s0);
          u = (if has_sign s then drop 1 s else s)
      in if s = [] then Decimal False 0 0
         else if has_hex_prefix s \<and> all_digits 16 (drop 2 s)
         then Decimal False (digits_value 16 (drop 2 s)) 0
         else if (take 2 s = ''0o'' \<or> take 2 s = ''0O'') \<and> all_digits 8 (drop 2 s)
         then Decimal False (digits_value 8 (drop 2 s)) 0
         else if (take 2 s = ''0b'' \<or> take 2 s = ''0B'') \<and> all_digits 2 (drop 2 s)
         then Decimal False (digits_value 2 (drop 2 s)) 0
         else if u = ''Infinity'' then Infinite (take 1 s = ''-'')
         else (case unsigned_decimal u of
                 None \<Rightarrow> Not_a_number
               | Some (D, x) \<Rightarrow> Decimal (take 1 s = ''-'') D x))"

text \<open>
  The double nearest to the fraction \<open>N / M\<close> of two positive integers, ties to even:
  \<open>(q, s)\<close> for the double \<open>q / 2\<^sup>s\<close> (\<open>q \<cdot> 2\<^sup>-\<^sup>s\<close> when \<open>s\<close> is negative), where \<open>q\<close> has
  53 bits. \<open>e\<close> is the binary exponent of the fraction, \<open>2\<^sup>e \<le> N / M < 2\<^sup>e\<^sup>+\<^sup>1\<close>.
\<close>

definition nearest_double :: "int \<Rightarrow> int \<Rightarrow> int \<times> int" where
  "nearest_double N M =
     (let e0 = int (bitlen N) - int (bitlen M);
          below = (if 0 \<le> e0 then N < M * 2 ^ nat e0 else N * 2 ^ nat (- e0) < M);
          e = (if below then e0 - 1 else e0);
          s = 52 - e;
          A = (if 0 \<le> s then N * 2 ^ nat s else N);
          B = (if 0 \<le> s then M else M * 2 ^ nat (- s));
          q = A div B;
          r = A mod B
      in (if B < 2 * r \<or> (2 * r = B \<and> odd q) then q + 1 else q, s))"

text \<open>
  The double of the decimal \<open>D \<cdot> 10\<^sup>x\<close>, negated when \<open>neg\<close>: \<open>Inl b\<close> when it is an
  infinity (from \<open>2\<^sup>1\<^sup>0\<^sup>2\<^sup>4\<close> on; \<open>b\<close> for the negative one), else \<open>Inr (n, whole)\<close>
  where \<open>n\<close> is the double cut to its integer part and \<open>whole\<close> says that nothing was
  cut. A decimal of at most \<open>2\<^sup>-\<^sup>1\<^sup>0\<^sup>7\<^sup>5\<close> is the double 0.
\<close>

definition decimal_double :: "bool \<Rightarrow> int \<Rightarrow> int \<Rightarrow> bool + (int \<times> bool)" where
  "decimal_double neg D x =
     (let N = (if 0 \<le> x then D * 10 ^ nat x else D);
          M = (if 0 \<le> x then 1 else 10 ^ nat (- x))
      in if D = 0 \<or> N * 2 ^ 1075 \<le> M then Inr (0, True)
         else case nearest_double N M of
                (q, s) \<Rightarrow>
                  if 0 \<le> s
                  then Inr ((if neg then - (q div 2 ^ nat s) else q div 2 ^ nat s),
                            q mod 2 ^ nat s = 0)
                  else if 2 ^ 1024 \<le> q * 2 ^ nat (- s) then Inl neg
                  else Inr ((if neg then - (q * 2 ^ nat (- s)) else q * 2 ^ nat (- s)), True))"

definition wrap32 :: "int \<Rightarrow> int" where
  "wrap32 n = (n + 2 ^ 31) mod 2 ^ 32 - 2 ^ 31"

text \<open>
  \<^verbatim>\<open>ToNumber\<close> and \<^verbatim>\<open>ToInt32\<close>; an object converts through its string. \<^verbatim>\<open>ToInt32\<close>
  cuts the fraction of a number and is 0 for \<^verbatim>\<open>NaN\<close> and the infinities. The datatype
  of values has no number with a fraction: \<^verbatim>\<open>ToNumber\<close> of a string that denotes one
  (\<^verbatim>\<open>'16.5'\<close>) is given as \<^verbatim>\<open>NaN\<close> here, which departs from the language; the only
  caller is \<^verbatim>\<open>length - 1\<close> at line 342, for a \<^verbatim>\<open>metadata\<close> object whose \<^verbatim>\<open>length\<close>
  is such a string.
\<close>

definition ToNumber :: "jsval \<Rightarrow> jsval" where
  "ToNumber v =
     (case v of
        Undefined \<Rightarrow> JNaN
      | Null \<Rightarrow> JNum 0
      | JBool b \<Rightarrow> JNum (if b then 1 else 0)
      | JNum n \<Rightarrow> JNum n
      | JNaN \<Rightarrow> JNaN
      | JInf b \<Rightarrow> JInf b
      | _ \<Rightarrow> (case string_toNumber (js_toString v) of
                Not_a_number \<Rightarrow> JNaN
              | Infinite neg \<Rightarrow> JInf neg
              | Decimal neg D x \<Rightarrow>
                  (case decimal_double neg D x of
                     Inl b \<Rightarrow> JInf b
                   | Inr (n, whole) \<Rightarrow> if whole then JNum n else JNaN)))"

definition ToInt32 :: "jsval \<Rightarrow> int" where
  "ToInt32 v =
     (case v of
        Undefined \<Rightarrow> 0
      | Null \<Rightarrow> 0
      | JBool b \<Rightarrow> (if b then 1 else 0)
      | JNum n \<Rightarrow> wrap32 n
      | JNaN \<Rightarrow> 0
      | JInf b \<Rightarrow> 0
      | _ \<Rightarrow> (case string_toNumber (js_toString v) of
                Decimal neg D x \<Rightarrow>
                  (case decimal_double neg D x of Inl b \<Rightarrow> 0 | Inr (n, whole) \<Rightarrow> wrap32 n)
              | _ \<Rightarrow> 0))"

text \<open>\<^verbatim>\<open>parseInt(string, radix)\<close>, by the steps of the language standard.\<close>

definition parseInt :: "jsval \<Rightarrow> jsval \<Rightarrow> jsval" where
  "parseInt string radix =
     (let S = drop_space (js_toString string);
          neg = (take 1 S = ''-'');
          S1 = (if take 1 S = ''-'' \<or> take 1 S = ''+'' then drop 1 S else S);
          R = ToInt32 radix
      in if R \<noteq> 0 \<and> (R < 2 \<or> 36 < R) then JNaN
         else let strip = (R = 0 \<or> R = 16);
                  hex = (strip \<and> has_hex_prefix S1);
                  R' = (if hex then 16 else if R = 0 then 10 else nat R);
                  S2 = (if hex then drop 2 S1 else S1)
              in case leading_digits R' S2 None of
                   None \<Rightarrow> JNaN
                 | Some m \<Rightarrow> to_double (if neg then - m else m))"

text \<open>
  \<^verbatim>\<open>Buffer.from(v, 'hex')\<close>: a string is read two hex digits at a time and cut at the
  first pair that is not hex (a last odd digit is dropped); a buffer is copied; an array
  gives one byte per element; \<^verbatim>\<open>undefined\<close>, \<^verbatim>\<open>null\<close>, numbers and booleans throw a
  \<^verbatim>\<open>TypeError\<close>, and so do an \<^verbatim>\<open>Error\<close> and a plain object (a plain object with a
  \<^verbatim>\<open>length\<close>, which Node reads as an array, is not modelled). The message is the one
  of Node from version 12 on, which ends with what was received.
\<close>

definition received :: "jsval \<Rightarrow> string" where
  "received v =
     (case v of
        Undefined \<Rightarrow> '' Received undefined''
      | Null \<Rightarrow> '' Received null''
      | JBool b \<Rightarrow> '' Received type boolean ('' @ js_toString v @ '')''
      | JNum n \<Rightarrow> '' Received type number ('' @ js_toString v @ '')''
      | JNaN \<Rightarrow> '' Received type number (NaN)''
      | JInf b \<Rightarrow> '' Received type number ('' @ js_toString v @ '')''
      | JErr n m \<Rightarrow> '' Received an instance of '' @ n
      | _ \<Rightarrow> '' Received an instance of Object'')"

fun hex_bytes :: "string \<Rightarrow> byte list" where
  "hex_bytes (a # b # cs) =
     (case (digit_val 16 a, digit_val 16 b) of
        (Some x, Some y) \<Rightarrow> of_nat (16 * x + y) # hex_bytes cs
      | _ \<Rightarrow> [])"
| "hex_bytes _ = []"

definition Buffer_from_hex :: "jsval \<Rightarrow> exn + byte list" where
  "Buffer_from_hex v =
     (case v of
        JStr s \<Rightarrow> Inr (hex_bytes s)
      | JBuf b \<Rightarrow> Inr b
      | JArr xs \<Rightarrow> Inr (map (\<lambda>x. of_int (ToInt32 x)) xs)
      | _ \<Rightarrow> Inl (TypeError (''The first argument must be of type string or an instance of Buffer, ArrayBuffer, or Array or an Array-like Object.'' @ received v)))"

section \<open>The header encoding: ASN.1 DER\<close>

text \<open>
  Modelled from the spec: the encoder that \<^verbatim>\<open>asn.define\<close> is meant to build from the
  schema of lines 305 to 311 is not code of the repository, and the query service does
  not even bind \<^verbatim>\<open>asn\<close>. The specification names the encoding, ASN.1 DER: the encoder
  here is DER as the standard (X.690) defines it, for a schema that is a sequence of
  keyed integers and octet strings.
\<close>

text \<open>Big-endian bytes of a length, none for 0.\<close>

fun nat_bytes :: "nat \<Rightarrow> byte list" where
  "nat_bytes n = (if n = 0 then [] else nat_bytes (n div 256) @ [of_nat (n mod 256)])"

text \<open>Definite length: one byte below 128, else the count of length bytes and the bytes.\<close>

definition der_len :: "nat \<Rightarrow> byte list" where
  "der_len n = (if n < 128 then [of_nat n] else of_nat (128 + length (nat_bytes n)) # nat_bytes n)"

definition der_tlv :: "byte \<Rightarrow> byte list \<Rightarrow> byte list" where
  "der_tlv tag content = tag # der_len (length content) @ content"

text \<open>The shortest two's complement form of an integer, big-endian.\<close>

function int_bytes :: "int \<Rightarrow> byte list" where
  "int_bytes i =
     (if - 128 \<le> i \<and> i < 128 then [of_int i] else int_bytes (i div 256) @ [of_int (i mod 256)])"
  by pat_completeness auto
termination
  by (relation "measure (\<lambda>i. nat \<bar>i\<bar>)") auto

datatype asn_type = Asn_int | Asn_octstr

text \<open>
  \<^verbatim>\<open>this.key(k).int()\<close> encodes a number, \<^verbatim>\<open>this.key(k).octstr()\<close> a buffer; a value of
  another kind under the key (a \<^verbatim>\<open>NaN\<close> from \<^verbatim>\<open>parseInt\<close>, a missing key) is reported
  as an encoding error.
\<close>

fun der_encode_value :: "asn_type \<Rightarrow> jsval \<Rightarrow> exn + byte list" where
  "der_encode_value Asn_int (JNum i) = Inr (der_tlv 0x02 (int_bytes i))"
| "der_encode_value Asn_octstr (JBuf b) = Inr (der_tlv 0x04 b)"
| "der_encode_value t v = Inl (Exn ''Error'' ''Failed to encode the value'')"

text \<open>\<^verbatim>\<open>this.seq().obj(...)\<close>: the keyed fields in the order of the schema.\<close>

fun der_encode_fields :: "(string \<times> asn_type) list \<Rightarrow> jsval \<Rightarrow> exn + byte list" where
  "der_encode_fields [] obj = Inr []"
| "der_encode_fields ((k, t) # schema) obj =
     bind (get_prop obj k) (\<lambda>v.
     bind (der_encode_value t v) (\<lambda>b.
     bind (der_encode_fields schema obj) (\<lambda>bs. Inr (b @ bs))))"

definition asn_encode_der :: "(string \<times> asn_type) list \<Rightarrow> jsval \<Rightarrow> exn + byte list" where
  "asn_encode_der schema obj = bind (der_encode_fields schema obj) (\<lambda>content. Inr (der_tlv 0x30 content))"

section \<open>The query service\<close>

text \<open>
  The \<^verbatim>\<open>QueryResult\<close> of the specification, \<^verbatim>\<open>{ statusCode, payload, message, detail }\<close>:
  what \<^verbatim>\<open>queryChaincode\<close> is meant to return. The sources name the four values only
  as the arguments of \<^verbatim>\<open>common.createReturn\<close>.
\<close>

record QueryResult =
  statusCode :: jsval
  payload :: jsval
  message :: jsval
  detail :: jsval

text \<open>
  \<^verbatim>\<open>common.createReturn(code, payload, message, detail)\<close>. \<^verbatim>\<open>common\<close> is
  \<^verbatim>\<open>lib/utils/common.js\<close>, which exports (lines 118 to 124) \<^verbatim>\<open>getClientForOrg\<close>,
  \<^verbatim>\<open>getChannel\<close> and five metrics, and no \<^verbatim>\<open>createReturn\<close>: the property is
  \<^verbatim>\<open>undefined\<close>, and the call throws a \<^verbatim>\<open>TypeError\<close> once its arguments are
  evaluated. No path of the sources builds a \<^verbatim>\<open>QueryResult\<close>.
\<close>

definition createReturn :: "jsval \<Rightarrow> jsval \<Rightarrow> jsval \<Rightarrow> jsval \<Rightarrow> exn + QueryResult" where
  "createReturn code p m d = Inl (TypeError ''common.createReturn is not a function'')"

text \<open>
  \<^verbatim>\<open>v.toString('utf8')\<close>: the text of a buffer; a number takes the argument for a
  radix and throws a \<^verbatim>\<open>RangeError\<close>; any other value ignores it.
\<close>

definition call_toString_utf8 :: "jsval \<Rightarrow> exn + string" where
  "call_toString_utf8 v =
     (case v of
        Undefined \<Rightarrow> Inl (cannot_read ''toString'' v)
      | Null \<Rightarrow> Inl (cannot_read ''toString'' v)
      | JNum n \<Rightarrow> Inl (Exn ''RangeError'' ''toString() radix must be between 2 and 36'')
      | JNaN \<Rightarrow> Inl (Exn ''RangeError'' ''toString() radix must be between 2 and 36'')
      | JInf b \<Rightarrow> Inl (Exn ''RangeError'' ''toString() radix must be between 2 and 36'')
      | _ \<Rightarrow> Inr (js_toString v))"

definition isArray :: "jsval \<Rightarrow> bool" where
  "isArray v = (case v of JArr xs \<Rightarrow> True | _ \<Rightarrow> False)"

definition instanceof_Error :: "jsval \<Rightarrow> bool" where
  "instanceof_Error v = (case v of JErr n m \<Rightarrow> True | _ \<Rightarrow> False)"

text \<open>
  \<^verbatim>\<open>JSON.parse(text)\<close>. The message of its \<^verbatim>\<open>SyntaxError\<close> depends on the text and
  on the version of Node; both handlers that catch it drop it unread.
\<close>

definition json_parse :: "fabric \<Rightarrow> string \<Rightarrow> exn + jsval" where
  "json_parse F text =
     (case JSON_parse F text of
        None \<Rightarrow> Inl (Exn ''SyntaxError'' ''Unexpected token in JSON'')
      | Some v \<Rightarrow> Inr v)"

text \<open>
  Lines 59 to 71 of \<^verbatim>\<open>queryChaincode\<close>: the first endorser entry is an \<^verbatim>\<open>Error\<close>.
  \<^verbatim>\<open>JSON.stringify(err, Object.getOwnPropertyNames(err))\<close> followed by \<^verbatim>\<open>JSON.parse\<close>
  copies the own properties of the error into a plain object, so \<^verbatim>\<open>objErr.message\<close> is
  the message of the error. \<^verbatim>\<open>convertObj\<close> is declared with \<^verbatim>\<open>let\<close> inside the
  \<^verbatim>\<open>try\<close> block: the \<^verbatim>\<open>catch\<close> block reads it outside its scope, which in
  JavaScript throws a \<^verbatim>\<open>ReferenceError\<close> while the arguments of \<^verbatim>\<open>createReturn\<close>
  are evaluated.
\<close>

definition exn_value :: "exn \<Rightarrow> jsval" where
  "exn_value e = (case e of Exn n m \<Rightarrow> JErr n m)"

definition endorser_error :: "fabric \<Rightarrow> jsval \<Rightarrow> exn + QueryResult" where
  "endorser_error F err =
     bind (get_prop err ''message'') (\<lambda>objErr_message.
       try_catch
         (bind (json_parse F (js_toString objErr_message)) (\<lambda>convertObj.
          bind (get_prop convertObj ''status'') (\<lambda>status.
          bind (get_prop convertObj ''msg'') (\<lambda>msg.
            createReturn status (JStr '''') msg msg))))
         (\<lambda>err. bind (unbound ''convertObj'') (\<lambda>convertObj.
                 bind (get_prop convertObj ''status'') (\<lambda>status.
                   createReturn status (JStr '''') (exn_value err) (exn_value err)))))"

text \<open>
  Lines 72 to 80: the first endorser entry carries \<^verbatim>\<open>response.payload\<close>. The payload
  is replaced by the parsed JSON, or by its text when that does not parse.
\<close>

definition endorser_payload :: "fabric \<Rightarrow> jsval \<Rightarrow> exn + QueryResult" where
  "endorser_payload F obj =
     bind (get_prop obj ''payload'') (\<lambda>raw.
     bind (try_catch
             (bind (call_toString_utf8 raw) (\<lambda>text. json_parse F text))
             (\<lambda>e. bind (call_toString_utf8 raw) (\<lambda>text. Inr (JStr text)))) (\<lambda>decoded.
     bind (get_prop obj ''status'') (\<lambda>status.
       createReturn status decoded (JStr ''Success'') (JStr ''Success''))))"

text \<open>Lines 52 to 89: what is made of the raw proposal result.\<close>

definition normalize :: "fabric \<Rightarrow> jsval \<Rightarrow> exn + QueryResult" where
  "normalize F proposalResults =
     bind (get_index proposalResults 0) (\<lambda>responses.
       if \<not> truthy responses \<or> \<not> isArray responses
       then createReturn (JNum 202) (JStr '''')
              (JStr ''Payload results are missing from the chaincode query'') (JStr '''')
       else bind (get_index responses 0) (\<lambda>first.
         if truthy first then
           (if instanceof_Error first then endorser_error F first
            else bind (get_prop first ''response'') (\<lambda>response.
                 bind (if truthy response then get_prop response ''payload'' else Inr response) (\<lambda>cond.
                   if truthy cond then endorser_payload F response
                   else createReturn (JNum 202) (JStr '''')
                          (JStr ''queryByChaincode - unknown or missing results in query'')
                          (JStr ''''))))
         else createReturn (JNum 202) (JStr '''') (JStr ''response_payloads is null'') (JStr '''')))"

definition name_value :: "string option \<Rightarrow> jsval" where
  "name_value a = (case a of None \<Rightarrow> Undefined | Some s \<Rightarrow> JStr s)"

definition channel_not_defined :: "string option \<Rightarrow> string" where
  "channel_not_defined channelName =
     util_format ''Channel %s was not defined in the connection profile'' [name_toString channelName]"

text \<open>The body of the \<^verbatim>\<open>try\<close> block of \<^verbatim>\<open>queryChaincode\<close>, lines 32 to 89.\<close>

definition queryChaincode_body ::
  "fabric \<Rightarrow> session \<Rightarrow> jsval \<Rightarrow> string option \<Rightarrow> jsval \<Rightarrow> jsval \<Rightarrow> jsval
     \<Rightarrow> string option \<Rightarrow> string option \<Rightarrow> (exn + QueryResult) \<times> session" where
  "queryChaincode_body F s peerNames channelName chaincodeName fcn args orgName userName =
     (case getClientForOrg F s orgName userName False of
        (Inl e, s1) \<Rightarrow> (Inl e, s1)
      | (Inr client, s1) \<Rightarrow>
          (case getChannel F s1 orgName userName channelName False of
             (Inl e, s2) \<Rightarrow> (Inl e, s2)
           | (Inr None, s2) \<Rightarrow>
               (createReturn (JNum 202) (JStr '''')
                  (JStr (channel_not_defined channelName))
                  (JStr (channel_not_defined channelName)), s2)
           | (Inr (Some channel), s2) \<Rightarrow>
               (bind (newTransactionID F client) (\<lambda>tx_id.
                bind (sendTransactionProposal F channel
                        (JObj [(''targets'', peerNames), (''chaincodeId'', chaincodeName),
                               (''fcn'', fcn), (''args'', args),
                               (''chainId'', name_value channelName), (''txId'', tx_id)]))
                  (normalize F)), s2)))"

text \<open>
  \<^verbatim>\<open>queryChaincode\<close>, lines 30 to 94: the handler of line 90 passes code 202 and the
  text of whatever the body threw to \<^verbatim>\<open>createReturn\<close>.
\<close>

definition queryChaincode ::
  "fabric \<Rightarrow> session \<Rightarrow> jsval \<Rightarrow> string option \<Rightarrow> jsval \<Rightarrow> jsval \<Rightarrow> jsval
     \<Rightarrow> string option \<Rightarrow> string option \<Rightarrow> (exn + QueryResult) \<times> session" where
  "queryChaincode F s peerNames channelName chaincodeName fcn args orgName userName =
     (case queryChaincode_body F s peerNames channelName chaincodeName fcn args orgName userName of
        (r, s') \<Rightarrow>
          (try_catch r
             (\<lambda>error. createReturn (JNum 202) (JStr '''')
                         (JStr (exn_toString error)) (JStr (exn_toString error))), s'))"

text \<open>
  The ledger inspection operations hand back what the SDK returned, or a string. A
  reply is one of the two shapes the specification and the sources speak of: a
  \<^verbatim>\<open>QueryResult\<close>, or a plain value.
\<close>

datatype reply = Result QueryResult | Plain jsval

text \<open>
  The four operations of lines 104 to 217 differ in the SDK call only:
  \<^verbatim>\<open>try { channel = getChannel(..); if (!channel) throw new Error(message); r = call(channel);
  return r ? r : 'response_payload is null' } catch (error) { return error.toString() }\<close>.
\<close>

definition ledger_query ::
  "fabric \<Rightarrow> session \<Rightarrow> string option \<Rightarrow> string option \<Rightarrow> string option
     \<Rightarrow> (channel \<Rightarrow> exn + jsval) \<Rightarrow> (exn + reply) \<times> session" where
  "ledger_query F s channelName orgName userName call =
     (case getChannel F s orgName userName channelName False of
        (r, s') \<Rightarrow>
          (try_catch
             (bind r (\<lambda>channel.
                case channel of
                  None \<Rightarrow> Inl (Exn ''Error'' (channel_not_defined channelName))
                | Some ch \<Rightarrow>
                    bind (call ch) (\<lambda>response_payload.
                      if truthy response_payload then Inr (Plain response_payload)
                      else Inr (Plain (JStr ''response_payload is null'')))))
             (\<lambda>error. Inr (Plain (JStr (exn_toString error)))), s'))"

text \<open>Line 113 passes the peer name to \<^verbatim>\<open>parseInt\<close> as its radix.\<close>

definition getBlockByNumber ::
  "fabric \<Rightarrow> session \<Rightarrow> jsval \<Rightarrow> string option \<Rightarrow> jsval \<Rightarrow> string option \<Rightarrow> string option
     \<Rightarrow> (exn + reply) \<times> session" where
  "getBlockByNumber F s peerName channelName blockNumber orgName userName =
     ledger_query F s channelName orgName userName
       (\<lambda>ch. queryBlock F ch (parseInt blockNumber peerName))"

definition getTransactionByID ::
  "fabric \<Rightarrow> session \<Rightarrow> jsval \<Rightarrow> string option \<Rightarrow> jsval \<Rightarrow> string option \<Rightarrow> string option
     \<Rightarrow> (exn + reply) \<times> session" where
  "getTransactionByID F s peerName channelName trxnID orgName userName =
     ledger_query F s channelName orgName userName
       (\<lambda>ch. queryTransaction F ch trxnID peerName)"

definition getBlockByHash ::
  "fabric \<Rightarrow> session \<Rightarrow> jsval \<Rightarrow> string option \<Rightarrow> jsval \<Rightarrow> string option \<Rightarrow> string option
     \<Rightarrow> (exn + reply) \<times> session" where
  "getBlockByHash F s peerName channelName hash orgName userName =
     ledger_query F s channelName orgName userName
       (\<lambda>ch. bind (Buffer_from_hex hash) (\<lambda>buf. queryBlockByHash F ch buf peerName))"

definition getChannelInfo ::
  "fabric \<Rightarrow> session \<Rightarrow> jsval \<Rightarrow> string option \<Rightarrow> string option \<Rightarrow> string option
     \<Rightarrow> (exn + reply) \<times> session" where
  "getChannelInfo F s peerName channelName orgName userName =
     ledger_query F s channelName orgName userName (\<lambda>ch. queryInfo F ch peerName)"

section \<open>The block decoder\<close>

text \<open>
  \<^verbatim>\<open>headerAsn\<close>, lines 305 to 311: a sequence of \<^verbatim>\<open>Number\<close> (integer),
  \<^verbatim>\<open>PreviousHash\<close> and \<^verbatim>\<open>DataHash\<close> (octet strings).
\<close>

definition headerAsn :: "(string \<times> asn_type) list" where
  "headerAsn = [(''Number'', Asn_int), (''PreviousHash'', Asn_octstr), (''DataHash'', Asn_octstr)]"

text \<open>
  \<^verbatim>\<open>_generateBlockHash(header)\<close>, lines 304 to 320. Its first statement reads \<^verbatim>\<open>asn\<close>
  and its last reads \<^verbatim>\<open>sha\<close>; the file binds neither, so the first statement throws.
  What follows it is written with the encoder of the previous section in the place of
  \<^verbatim>\<open>headerAsn.encode(_, 'der')\<close>, and \<open>sha256\<close> for the function that \<^verbatim>\<open>sha\<close> would
  hold.
\<close>

definition generateBlockHash :: "jsval \<Rightarrow> exn + jsval" where
  "generateBlockHash hdr =
     bind (unbound ''asn'') (\<lambda>asn :: unit.
     bind (get_prop hdr ''number'') (\<lambda>number.
     bind (get_prop hdr ''previous_hash'') (\<lambda>previous_hash.
     bind (Buffer_from_hex previous_hash) (\<lambda>PreviousHash.
     bind (get_prop hdr ''data_hash'') (\<lambda>data_hash.
     bind (Buffer_from_hex data_hash) (\<lambda>DataHash.
     bind (asn_encode_der headerAsn
             (JObj [(''Number'', parseInt number Undefined),
                    (''PreviousHash'', JBuf PreviousHash),
                    (''DataHash'', JBuf DataHash)])) (\<lambda>output.
     bind (unbound ''sha'') (\<lambda>sha256 :: byte list \<Rightarrow> jsval.
       Inr (sha256 output)))))))))"

text \<open>Chained property reads \<^verbatim>\<open>v.a.b.c\<close>.\<close>

fun get_path :: "jsval \<Rightarrow> string list \<Rightarrow> exn + jsval" where
  "get_path v [] = Inr v"
| "get_path v (k # ks) = bind (get_prop v k) (\<lambda>w. get_path w ks)"

text \<open>
  \<^verbatim>\<open>n - 1\<close>, and the computed read \<^verbatim>\<open>v[k]\<close> whose key is a number or any other
  value (then its string).
\<close>

definition minus_one :: "jsval \<Rightarrow> jsval" where
  "minus_one v = (case ToNumber v of JNum n \<Rightarrow> to_double (n - 1) | w \<Rightarrow> w)"

definition get_computed :: "jsval \<Rightarrow> jsval \<Rightarrow> exn + jsval" where
  "get_computed v k = (case k of JNum i \<Rightarrow> get_index v i | _ \<Rightarrow> get_prop v (js_toString k))"

text \<open>One transaction record, as the callback of lines 351 to 363 builds it.\<close>

record tx =
  timestamp :: jsval
  channel_id :: jsval
  tx_id :: jsval
  tx_type :: jsval
  ns_rwset :: jsval

definition crawl_tx :: "jsval \<Rightarrow> exn + tx" where
  "crawl_tx d =
     bind (get_path d [''payload'', ''header'', ''channel_header'', ''timestamp'']) (\<lambda>t1.
     bind (get_path d [''payload'', ''header'', ''channel_header'', ''channel_id'']) (\<lambda>t2.
     bind (get_path d [''payload'', ''header'', ''channel_header'', ''tx_id'']) (\<lambda>t3.
     bind (get_path d [''payload'', ''header'', ''channel_header'', ''typeString'']) (\<lambda>t4.
     bind (get_path d [''payload'', ''data'', ''actions'']) (\<lambda>actions.
     bind (get_index actions 0) (\<lambda>action.
     bind (if truthy action
           then get_path action [''payload'', ''action'', ''proposal_response_payload'',
                                 ''extension'', ''results'', ''ns_rwset'']
           else Inr (JArr [])) (\<lambda>rwset.
       Inr \<lparr>timestamp = t1, channel_id = t2, tx_id = t3, tx_type = t4, ns_rwset = rwset\<rparr>)))))))"

text \<open>
  \<^verbatim>\<open>forEach\<close> with \<^verbatim>\<open>data.push(tx)\<close>: the records in the order of the entries. An
  array has the method, and so has a buffer, whose entries are its bytes as numbers; on
  any other truthy value the call throws.
\<close>

fun crawl_txs :: "jsval list \<Rightarrow> exn + tx list" where
  "crawl_txs [] = Inr []"
| "crawl_txs (d # ds) = bind (crawl_tx d) (\<lambda>t. bind (crawl_txs ds) (\<lambda>ts. Inr (t # ts)))"

definition forEach_crawl :: "jsval \<Rightarrow> exn + tx list" where
  "forEach_crawl txs =
     (case txs of
        JArr ds \<Rightarrow> crawl_txs ds
      | JBuf b \<Rightarrow> crawl_txs (map (\<lambda>x. JNum (uint x)) b)
      | _ \<Rightarrow> Inl (TypeError ''blockResult.data.data.forEach is not a function''))"

record block_header =
  number :: jsval
  previous_hash :: jsval
  data_hash :: jsval
  block_hash :: jsval

record block =
  header :: block_header
  data :: "tx list"
  tx_code :: jsval

text \<open>
  Lines 338 to 373: what \<^verbatim>\<open>crawlBlock\<close> makes of the block the network returned;
  \<open>None\<close> is \<^verbatim>\<open>null\<close>.
\<close>

definition crawl_result :: "jsval \<Rightarrow> exn + block option" where
  "crawl_result blockResult =
     (if truthy blockResult then
        bind (get_path blockResult [''data'', ''data'']) (\<lambda>txs.
          if \<not> truthy txs then Inr None
          else
            bind (get_path blockResult [''metadata'', ''metadata'']) (\<lambda>metadata.
            bind (get_prop metadata ''length'') (\<lambda>len.
            bind (get_computed metadata (minus_one len)) (\<lambda>code.
            bind (get_prop blockResult ''header'') (\<lambda>hdr.
            bind (generateBlockHash hdr) (\<lambda>hash.
            bind (get_prop hdr ''number'') (\<lambda>n.
            bind (get_prop hdr ''previous_hash'') (\<lambda>p.
            bind (get_prop hdr ''data_hash'') (\<lambda>h.
            bind (forEach_crawl txs) (\<lambda>records.
              Inr (Some \<lparr>header = \<lparr>number = n, previous_hash = p, data_hash = h, block_hash = hash\<rparr>,
                         data = records, tx_code = code\<rparr>)))))))))))
      else Inr None)"

text \<open>
  \<^verbatim>\<open>option == 'byNumber'\<close>: a string is compared as it is, an object by its string, and
  a number or boolean never equals this text.
\<close>

definition is_byNumber :: "jsval \<Rightarrow> bool" where
  "is_byNumber v =
     (case v of
        JStr s \<Rightarrow> s = ''byNumber''
      | JBuf b \<Rightarrow> js_toString v = ''byNumber''
      | JErr n m \<Rightarrow> js_toString v = ''byNumber''
      | JArr xs \<Rightarrow> js_toString v = ''byNumber''
      | _ \<Rightarrow> False)"

text \<open>A method call on the channel handle, which may be \<^verbatim>\<open>undefined\<close>.\<close>

definition on_channel :: "channel option \<Rightarrow> string \<Rightarrow> (channel \<Rightarrow> exn + 'a) \<Rightarrow> exn + 'a" where
  "on_channel channel method call =
     (case channel of None \<Rightarrow> Inl (cannot_read method Undefined) | Some ch \<Rightarrow> call ch)"

text \<open>
  Lines 329 to 337: the channel is resolved from the session and the block is asked of
  the network, by number or by hash. Line 329 passes \<^verbatim>\<open>orgName\<close>, \<^verbatim>\<open>userName\<close> and
  \<^verbatim>\<open>channelName\<close> to \<^verbatim>\<open>getChannel\<close>; they are neither parameters of \<^verbatim>\<open>crawlBlock\<close>
  nor declared anywhere in the file, so reading the first of them throws.
\<close>

definition crawl_fetch ::
  "fabric \<Rightarrow> session \<Rightarrow> jsval \<Rightarrow> jsval \<Rightarrow> (exn + jsval) \<times> session" where
  "crawl_fetch F s blockNumberOrHash option =
     (case bind (unbound ''orgName'') (\<lambda>orgName.
           bind (unbound ''userName'') (\<lambda>userName.
           bind (unbound ''channelName'') (\<lambda>channelName.
             Inr (orgName, userName, channelName)))) of
        Inl e \<Rightarrow> (Inl e, s)
      | Inr (orgName, userName, channelName) \<Rightarrow>
          (case getChannel F s orgName userName channelName False of
             (Inl e, s1) \<Rightarrow> (Inl e, s1)
           | (Inr channel, s1) \<Rightarrow>
               (if is_byNumber option
                then on_channel channel ''queryBlock'' (\<lambda>ch. queryBlock F ch blockNumberOrHash)
                else bind (Buffer_from_hex blockNumberOrHash) (\<lambda>buf.
                       on_channel channel ''queryBlockByHash''
                         (\<lambda>ch. queryBlockByHash F ch buf Undefined)), s1)))"

text \<open>The body of the \<^verbatim>\<open>try\<close> block of \<^verbatim>\<open>crawlBlock\<close>, lines 329 to 373.\<close>

definition crawlBlock_body ::
  "fabric \<Rightarrow> session \<Rightarrow> jsval \<Rightarrow> jsval \<Rightarrow> (exn + block option) \<times> session" where
  "crawlBlock_body F s blockNumberOrHash option =
     (case crawl_fetch F s blockNumberOrHash option of
        (blockResult, s1) \<Rightarrow> (bind blockResult crawl_result, s1))"

text \<open>
  \<^verbatim>\<open>crawlBlock\<close>, lines 327 to 378. The handler is \<^verbatim>\<open>catch (err)\<close>, and its two
  statements read \<^verbatim>\<open>error\<close>, which no declaration in scope binds: the first of them
  throws a \<^verbatim>\<open>ReferenceError\<close> out of the handler.
\<close>

definition crawlBlock ::
  "fabric \<Rightarrow> session \<Rightarrow> jsval \<Rightarrow> jsval \<Rightarrow> (exn + block option) \<times> session" where
  "crawlBlock F s blockNumberOrHash option =
     (case crawlBlock_body F s blockNumberOrHash option of
        (r, s') \<Rightarrow> (try_catch r (\<lambda>err. unbound ''error''), s'))"

section \<open>The header encoding as the specification words it, and a DER decoder\<close>

text \<open>
  The specification of \<^verbatim>\<open>computeBlockHash\<close>: the DER sequence of the number as an
  integer, the previous hash as an octet string and the data hash as an octet string, in
  this order. Tag \<open>0x30\<close> is a sequence, \<open>0x02\<close> an integer, \<open>0x04\<close> an octet string.
\<close>

definition der_header :: "int \<Rightarrow> byte list \<Rightarrow> byte list \<Rightarrow> byte list" where
  "der_header n p d = der_tlv 0x30 (der_tlv 0x02 (int_bytes n) @ der_tlv 0x04 p @ der_tlv 0x04 d)"

text \<open>
  Modelled from the spec: the standard ASN.1 decoder of the round-trip property is not
  code of the repository. It is a decoder of DER for the same three fields, from the
  standard: it refuses a length that is not in its shortest form, an integer with a
  redundant leading byte, a wrong tag and bytes left over.
\<close>

definition be_nat :: "byte list \<Rightarrow> nat" where
  "be_nat bs = foldl (\<lambda>a b. a * 256 + unat b) 0 bs"

definition decode_len :: "byte list \<Rightarrow> (nat \<times> byte list) option" where
  "decode_len bs =
     (case bs of
        [] \<Rightarrow> None
      | b # rest \<Rightarrow>
          if unat b < 128 then Some (unat b, rest)
          else let k = unat b - 128;
                   n = be_nat (take k rest)
               in if k = 0 \<or> 126 < k \<or> length rest < k \<or> hd rest = 0 \<or> n < 128 then None
                  else Some (n, drop k rest))"

definition decode_tlv :: "byte \<Rightarrow> byte list \<Rightarrow> (byte list \<times> byte list) option" where
  "decode_tlv tag bs =
     (case bs of
        [] \<Rightarrow> None
      | t # rest \<Rightarrow>
          if t \<noteq> tag then None
          else (case decode_len rest of
                  None \<Rightarrow> None
                | Some (n, rest') \<Rightarrow>
                    if length rest' < n then None else Some (take n rest', drop n rest')))"

fun minimal_int :: "byte list \<Rightarrow> bool" where
  "minimal_int (a # b # bs) = (\<not> (a = 0 \<and> b < 0x80) \<and> \<not> (a = 0xFF \<and> 0x80 \<le> b))"
| "minimal_int bs = True"

text \<open>The two's complement value of big-endian bytes: the first byte carries the sign.\<close>

definition signed_value :: "byte list \<Rightarrow> int" where
  "signed_value bs =
     (case bs of [] \<Rightarrow> 0 | b # rest \<Rightarrow> foldl (\<lambda>a c. a * 256 + uint c) (sint b) rest)"

definition decode_int :: "byte list \<Rightarrow> int option" where
  "decode_int bs = (if bs \<noteq> [] \<and> minimal_int bs then Some (signed_value bs) else None)"

definition der_decode_header :: "byte list \<Rightarrow> (int \<times> byte list \<times> byte list) option" where
  "der_decode_header bs =
     (case decode_tlv 0x30 bs of
        None \<Rightarrow> None
      | Some (content, rest) \<Rightarrow>
          if rest \<noteq> [] then None
          else (case decode_tlv 0x02 content of
                  None \<Rightarrow> None
                | Some (ib, r1) \<Rightarrow>
                    (case decode_int ib of
                       None \<Rightarrow> None
                     | Some n \<Rightarrow>
                         (case decode_tlv 0x04 r1 of
                            None \<Rightarrow> None
                          | Some (p, r2) \<Rightarrow>
                              (case decode_tlv 0x04 r2 of
                                 None \<Rightarrow> None
                               | Some (d, r3) \<Rightarrow> if r3 \<noteq> [] then None else Some (n, p, d))))))"

section \<open>A sample network\<close>

text \<open>
  An environment for the worked examples: every configuration loads, the state store
  knows the user \<^verbatim>\<open>admin\<close> only, the connection profile defines the channel
  \<^verbatim>\<open>mychannel\<close> only, every proposal is answered by \<open>proposal\<close> and every block query
  by \<open>blk\<close>. \<open>sample_JSON\<close> agrees with \<^verbatim>\<open>JSON.parse\<close> on the texts the examples use.
\<close>

definition sample_JSON :: "string \<Rightarrow> jsval option" where
  \<open>sample_JSON text =
     (if text = ''{"balance":100}'' then Some (JObj [(''balance'', JNum 100)])
      else if text = ''{"status":500,"msg":"not found"}''
      then Some (JObj [(''status'', JNum 500), (''msg'', JStr ''not found'')])
      else if text = ''{"status":200,"msg":"no such key"}''
      then Some (JObj [(''status'', JNum 200), (''msg'', JStr ''no such key'')])
      else None)\<close>

definition sample_fabric :: "bool \<Rightarrow> jsval \<Rightarrow> jsval \<Rightarrow> fabric" where
  "sample_fabric fallback proposal blk =
     \<lparr>process_env = (\<lambda>k. None),
      getConfigSetting = (\<lambda>k. JStr k),
      hfc_loadFromConfig = (\<lambda>p. None),
      client_loadFromConfig = (\<lambda>c p. None),
      initCredentialStores = (\<lambda>c. None),
      getUserContext = (\<lambda>c u. Inr (u = ''admin'')),
      getUserContext_current = (\<lambda>c. fallback),
      client_getChannel = (\<lambda>c n. Inr (if n = Some ''mychannel'' then Some 7 else None)),
      newTransactionID = (\<lambda>c. Inr (JStr ''tx1'')),
      sendTransactionProposal = (\<lambda>ch r. Inr proposal),
      queryBlock = (\<lambda>ch n. Inr blk),
      queryBlockByHash = (\<lambda>ch h p. Inr blk),
      queryTransaction = (\<lambda>ch t p. Inr Undefined),
      queryInfo = (\<lambda>ch p. Inr Undefined),
      JSON_parse = sample_JSON\<rparr>"

text \<open>
  A decoded block with header number 5 and two transaction entries: the first carries
  a chaincode action, the second has an empty list of actions.
\<close>

definition sample_entry :: "string \<Rightarrow> jsval list \<Rightarrow> jsval" where
  "sample_entry txid actions =
     JObj [(''payload'',
        JObj [(''header'', JObj [(''channel_header'',
                 JObj [(''timestamp'', JStr ''2019-01-01''), (''channel_id'', JStr ''mychannel''),
                       (''tx_id'', JStr txid), (''typeString'', JStr ''ENDORSER_TRANSACTION'')])]),
              (''data'', JObj [(''actions'', JArr actions)])])]"

definition sample_action :: jsval where
  "sample_action =
     JObj [(''payload'', JObj [(''action'', JObj [(''proposal_response_payload'',
        JObj [(''extension'', JObj [(''results'',
          JObj [(''ns_rwset'', JArr [JObj [(''namespace'', JStr ''mycc'')]])])])])])])]"

text \<open>
  An entry as the SDK decodes a configuration transaction: \<^verbatim>\<open>payload.data\<close> holds the
  configuration and no \<^verbatim>\<open>actions\<close>.
\<close>

definition sample_config_entry :: jsval where
  "sample_config_entry =
     JObj [(''payload'',
        JObj [(''header'', JObj [(''channel_header'',
                 JObj [(''timestamp'', JStr ''2019-01-01''), (''channel_id'', JStr ''mychannel''),
                       (''tx_id'', JStr ''''), (''typeString'', JStr ''CONFIG'')])]),
              (''data'', JObj [(''config'', JObj [(''sequence'', JStr ''1'')])])])]"

definition sample_block :: "jsval list \<Rightarrow> jsval" where
  "sample_block entries =
     JObj [(''header'', JObj [(''number'', JStr ''5''), (''previous_hash'', JStr ''aa''),
                              (''data_hash'', JStr ''bbcc'')]),
           (''data'', JObj [(''data'', JArr entries)]),
           (''metadata'', JObj [(''metadata'', JArr [JStr ''sig'', JNum 0, JArr [JNum 0, JNum 0]])])]"

section \<open>The shape of a reply\<close>

text \<open>A reply that is a \<^verbatim>\<open>QueryResult\<close> with code 202.\<close>

definition failure_202 :: "reply \<Rightarrow> bool" where
  "failure_202 r = (case r of Result q \<Rightarrow> statusCode q = JNum 202 | Plain v \<Rightarrow> False)"

section \<open>An SDK that builds the client\<close>

text \<open>
  The calls of lines 40 to 58 go through for the client that would be built next: both
  profiles load, the credential stores initialise, and the user, when one is named, has a
  context in the state store or the client holds one already.
\<close>

definition sdk_builds :: "fabric \<Rightarrow> session \<Rightarrow> string option \<Rightarrow> string option \<Rightarrow> bool" where
  "sdk_builds F s orgName userName =
     (let orgName' = name_or orgName (process_env F ''ORG_NAME'');
          userName' = name_or userName (process_env F ''USER_NAME'')
      in hfc_loadFromConfig F (getConfigSetting F ''network-connection-profile-path'') = None \<and>
         client_loadFromConfig F (built s)
           (getConfigSetting F (name_toString orgName' @ ''-connection-profile-path'')) = None \<and>
         initCredentialStores F (built s) = None \<and>
         (if name_truthy userName'
          then (case getUserContext F (built s) (name_toString userName') of
                  Inl e \<Rightarrow> False
                | Inr found \<Rightarrow> found \<or> getUserContext_current F (built s))
          else True))"

section \<open>The session cache: properties\<close>

lemma session_ok_init: "session_ok init_session"
  by (simp add: session_ok_def init_session_def)

lemma getClientForOrg_cached:
  "CLIENT s = Some c \<Longrightarrow> getClientForOrg F s orgName userName False = (Inr c, s)"
  by (simp add: getClientForOrg_def)

lemma getClientForOrg_returns:
  assumes "getClientForOrg F s orgName userName isRefresh = (Inr c, s')"
  shows "CLIENT s' = Some c"
    and "session_ok s \<Longrightarrow> session_ok s'"
    and "isRefresh \<or> CLIENT s = None \<Longrightarrow> c = built s \<and> built s' = Suc (built s)"
  using assms
  by (auto simp: getClientForOrg_def session_ok_def Let_def bind_def unbound_def
           split: option.splits if_splits sum.splits)

lemma getClientForOrg_throws:
  assumes "getClientForOrg F s orgName userName isRefresh = (Inl e, s')"
  shows "CLIENT s' = CLIENT s" and "CHANNEL s' = CHANNEL s" and "session_ok s \<Longrightarrow> session_ok s'"
  using assms
  by (auto simp: getClientForOrg_def session_ok_def Let_def bind_def unbound_def
           split: option.splits if_splits sum.splits)

lemma getChannel_session_ok:
  assumes "getChannel F s orgName userName channelName isRefresh = (r, s')" "session_ok s"
  shows "session_ok s'"
proof (cases "(if isRefresh then None else CHANNEL s)")
  case (Some ch)
  with assms show ?thesis by (simp add: getChannel_def)
next
  case None
  note no_cache = None
  show ?thesis
  proof (cases "CLIENT s")
    case (Some c)
    with assms no_cache show ?thesis
      by (auto simp: getChannel_def Let_def session_ok_def split: sum.splits)
  next
    case None
    obtain r1 s1 where g: "getClientForOrg F s (name_or orgName (process_env F ''ORG_NAME''))
         (name_or userName (process_env F ''USER_NAME'')) False = (r1, s1)"
      by (cases "getClientForOrg F s (name_or orgName (process_env F ''ORG_NAME''))
         (name_or userName (process_env F ''USER_NAME'')) False") auto
    show ?thesis
    proof (cases r1)
      case (Inl e)
      with g assms no_cache None getClientForOrg_throws(3)[OF g[unfolded Inl]] show ?thesis
        by (auto simp: getChannel_def Let_def)
    next
      case (Inr c)
      from getClientForOrg_returns(1,2)[OF g[unfolded Inr]] assms(2)
      have "CLIENT s1 = Some c" "session_ok s1" by auto
      with g Inr assms no_cache None show ?thesis
        by (auto simp: getChannel_def Let_def session_ok_def split: sum.splits)
    qed
  qed
qed

subsection \<open>Session reuse and refresh\<close>

lemma getClientForOrg_builds:
  assumes "sdk_builds F s orgName userName"
  shows "getClientForOrg F s orgName userName True =
           (Inr (built s), s\<lparr>built := Suc (built s), CLIENT := Some (built s)\<rparr>)"
proof (cases "name_truthy (name_or userName (process_env F ''USER_NAME''))")
  case True
  with assms obtain found where
    "getUserContext F (built s) (name_toString (name_or userName (process_env F ''USER_NAME''))) = Inr found"
    and "found \<or> getUserContext_current F (built s)"
    by (cases "getUserContext F (built s) (name_toString (name_or userName (process_env F ''USER_NAME'')))")
       (simp_all add: sdk_builds_def Let_def)
  with assms True show ?thesis
    by (auto simp: sdk_builds_def getClientForOrg_def Let_def)
next
  case False
  with assms show ?thesis
    by (simp add: sdk_builds_def getClientForOrg_def Let_def)
qed

text \<open>
  Claim C7. With a cached client handle in the session, \<^verbatim>\<open>getClientForOrg\<close> without
  refresh returns that handle and leaves the session as it is (nothing is built), and so
  does a second call with the same arguments. With refresh, when the SDK builds the
  client, the call returns the newly built handle; and every call with refresh that
  returns gives a handle different from the cached one and stores it as the cached
  client.
\<close>

theorem getClientForOrg_reuse_and_refresh:
  assumes "session_ok s" and "CLIENT s = Some c"
  shows "getClientForOrg F s orgName userName False = (Inr c, s) \<and>
         getClientForOrg F (snd (getClientForOrg F s orgName userName False)) orgName userName False
           = (Inr c, s) \<and>
         (sdk_builds F s orgName userName \<longrightarrow>
            getClientForOrg F s orgName userName True =
              (Inr (built s), s\<lparr>built := Suc (built s), CLIENT := Some (built s)\<rparr>)) \<and>
         (\<forall>c' s'. getClientForOrg F s orgName userName True = (Inr c', s') \<longrightarrow>
            c' \<noteq> c \<and> CLIENT s' = Some c' \<and> built s' = Suc (built s) \<and> session_ok s')"
proof -
  have reuse: "getClientForOrg F s orgName userName False = (Inr c, s)"
    using assms(2) by (rule getClientForOrg_cached)
  have "c < built s"
    using assms by (simp add: session_ok_def)
  then have refresh: "c' \<noteq> c \<and> CLIENT s' = Some c' \<and> built s' = Suc (built s) \<and> session_ok s'"
    if "getClientForOrg F s orgName userName True = (Inr c', s')" for c' s'
    using getClientForOrg_returns[OF that] assms(1) by auto
  have again: "getClientForOrg F (snd (getClientForOrg F s orgName userName False)) orgName userName False
      = (Inr c, s)"
    using reuse by simp
  from reuse again refresh getClientForOrg_builds[of F s orgName userName] show ?thesis
    by blast
qed

theorem getClientForOrg_reuse_and_refresh_witness:
  "session_ok \<lparr>CLIENT = Some 0, CHANNEL = None, built = 1\<rparr> \<and>
   sdk_builds (sample_fabric False Undefined Undefined) \<lparr>CLIENT = Some 0, CHANNEL = None, built = 1\<rparr>
     (Some ''Org1'') (Some ''admin'') \<and>
   getClientForOrg (sample_fabric False Undefined Undefined) init_session (Some ''Org1'') (Some ''admin'') False
     = (Inr 0, \<lparr>CLIENT = Some 0, CHANNEL = None, built = 1\<rparr>) \<and>
   getClientForOrg (sample_fabric False Undefined Undefined) \<lparr>CLIENT = Some 0, CHANNEL = None, built = 1\<rparr>
       (Some ''Org1'') (Some ''admin'') False
     = (Inr 0, \<lparr>CLIENT = Some 0, CHANNEL = None, built = 1\<rparr>) \<and>
   getClientForOrg (sample_fabric False Undefined Undefined) \<lparr>CLIENT = Some 0, CHANNEL = None, built = 1\<rparr>
       (Some ''Org1'') (Some ''admin'') True
     = (Inr 1, \<lparr>CLIENT = Some 1, CHANNEL = None, built = 2\<rparr>) \<and>
   (1::nat) \<noteq> 0"
  using getClientForOrg_reuse_and_refresh
          [of "\<lparr>CLIENT = Some 0, CHANNEL = None, built = 1\<rparr>" 0
              "sample_fabric False Undefined Undefined" "Some ''Org1''" "Some ''admin''"]
  by (simp add: session_ok_def sdk_builds_def getClientForOrg_def sample_fabric_def init_session_def
        name_or_def name_truthy_def name_toString_def)

subsection \<open>A cached channel answers every channel name\<close>

text \<open>
  Claim C10. While a channel handle is cached, \<^verbatim>\<open>getChannel\<close> without refresh returns
  it whatever organisation, user and channel name it is called with, and leaves the
  session as it is: a request for another channel name still gets the old handle.
\<close>
theorem getChannel_cached_whatever_the_name:
  assumes "CHANNEL s = Some ch"
  shows "getChannel F s orgName userName channelName False = (Inr (Some ch), s)"
  using assms by (simp add: getChannel_def)

theorem getChannel_cached_whatever_the_name_witness:
  "getChannel (sample_fabric False Undefined Undefined) init_session
      (Some ''Org1'') (Some ''admin'') (Some ''mychannel'') False
     = (Inr (Some 7), \<lparr>CLIENT = Some 0, CHANNEL = Some 7, built = 1\<rparr>) \<and>
   getChannel (sample_fabric False Undefined Undefined) \<lparr>CLIENT = Some 0, CHANNEL = Some 7, built = 1\<rparr>
      (Some ''Org2'') (Some ''bob'') (Some ''otherchannel'') False
     = (Inr (Some 7), \<lparr>CLIENT = Some 0, CHANNEL = Some 7, built = 1\<rparr>) \<and>
   client_getChannel (sample_fabric False Undefined Undefined) 0 (Some ''otherchannel'') = Inr None"
  using getChannel_cached_whatever_the_name
          [of "\<lparr>CLIENT = Some 0, CHANNEL = Some 7, built = 1\<rparr>" 7
              "sample_fabric False Undefined Undefined" "Some ''Org2''" "Some ''bob''" "Some ''otherchannel''"]
  by (simp add: getChannel_def getClientForOrg_def sample_fabric_def init_session_def
        name_or_def name_truthy_def name_toString_def)

subsection \<open>A user whose context is not found\<close>

lemma getClientForOrg_context_not_found:
  assumes "isRefresh \<or> CLIENT s = None"
    and "name_or userName (process_env F ''USER_NAME'') = Some u" and "u \<noteq> []"
    and "hfc_loadFromConfig F (getConfigSetting F ''network-connection-profile-path'') = None"
    and "client_loadFromConfig F (built s)
           (getConfigSetting F (name_toString (name_or orgName (process_env F ''ORG_NAME''))
               @ ''-connection-profile-path'')) = None"
    and "initCredentialStores F (built s) = None"
    and "getUserContext F (built s) u = Inr False"
  shows "getClientForOrg F s orgName userName isRefresh =
           (if getUserContext_current F (built s)
            then (Inr (built s), s\<lparr>built := Suc (built s), CLIENT := Some (built s)\<rparr>)
            else (Inl (ReferenceError ''util''), s\<lparr>built := Suc (built s)\<rparr>))"
  using assms
  by (auto simp: getClientForOrg_def Let_def name_truthy_def name_toString_def bind_def unbound_def)

text \<open>
  Claim C9. For the user \<^verbatim>\<open>bob\<close>, whose context the state store does not hold,
  \<^verbatim>\<open>getClientForOrg\<close> falls back to the context the client already has and returns the
  client. When the client has no context either, the call does not throw an error that
  names the user: line 51 reads \<^verbatim>\<open>util\<close>, which \<^verbatim>\<open>common.js\<close> does not bind, and what
  leaves the call is \<^verbatim>\<open>ReferenceError: util is not defined\<close>. The cached client is
  not replaced.
\<close>
theorem getClientForOrg_unknown_user_ReferenceError:
  "getClientForOrg (sample_fabric True Undefined Undefined) init_session (Some ''Org1'') (Some ''bob'') False
     = (Inr 0, \<lparr>CLIENT = Some 0, CHANNEL = None, built = 1\<rparr>) \<and>
   getClientForOrg (sample_fabric False Undefined Undefined) init_session (Some ''Org1'') (Some ''bob'') False
     = (Inl (Exn ''ReferenceError'' ''util is not defined''), \<lparr>CLIENT = None, CHANNEL = None, built = 1\<rparr>)"
  by (simp add: getClientForOrg_def sample_fabric_def init_session_def name_or_def name_truthy_def
        name_toString_def bind_def unbound_def ReferenceError_def)

section \<open>The query service: properties\<close>

subsection \<open>A channel that is not defined\<close>

lemma channel_not_defined_text:
  "channel_not_defined channelName =
     ''Channel '' @ name_toString channelName @ '' was not defined in the connection profile''"
  by (simp add: channel_not_defined_def)

lemma ledger_query_missing_channel:
  assumes "getChannel F s orgName userName channelName False = (Inr None, s')"
  shows "ledger_query F s channelName orgName userName call =
           (Inr (Plain (JStr (''Error: Channel '' @ name_toString channelName
                               @ '' was not defined in the connection profile''))), s')"
  using assms
  by (simp add: ledger_query_def bind_def try_catch_def channel_not_defined_text)

text \<open>
  Claim C8, as amended. When the channel resolves to no handle, \<^verbatim>\<open>getBlockByNumber\<close>,
  \<^verbatim>\<open>getTransactionByID\<close>, \<^verbatim>\<open>getBlockByHash\<close> and \<^verbatim>\<open>getChannelInfo\<close> do not throw:
  each returns the string
  \<^verbatim>\<open>Error: Channel <name> was not defined in the connection profile\<close>, which is not a
  \<^verbatim>\<open>QueryResult\<close> and carries no code.
\<close>

theorem missing_channel_replies:
  assumes "getChannel F s orgName userName channelName False = (Inr None, s')"
  shows "getBlockByNumber F s peerName channelName blockNumber orgName userName =
           (Inr (Plain (JStr (''Error: Channel '' @ name_toString channelName
                               @ '' was not defined in the connection profile''))), s') \<and>
         getTransactionByID F s peerName channelName trxnID orgName userName =
           (Inr (Plain (JStr (''Error: Channel '' @ name_toString channelName
                               @ '' was not defined in the connection profile''))), s') \<and>
         getBlockByHash F s peerName channelName hash orgName userName =
           (Inr (Plain (JStr (''Error: Channel '' @ name_toString channelName
                               @ '' was not defined in the connection profile''))), s') \<and>
         getChannelInfo F s peerName channelName orgName userName =
           (Inr (Plain (JStr (''Error: Channel '' @ name_toString channelName
                               @ '' was not defined in the connection profile''))), s')"
  using assms
  by (simp add: getBlockByNumber_def getTransactionByID_def getBlockByHash_def getChannelInfo_def
        ledger_query_missing_channel)

theorem missing_channel_replies_witness:
  "getChannel (sample_fabric False Undefined Undefined) init_session (Some ''Org1'') (Some ''admin'')
      (Some ''nochannel'') False
     = (Inr None, \<lparr>CLIENT = Some 0, CHANNEL = None, built = 1\<rparr>) \<and>
   getBlockByNumber (sample_fabric False Undefined Undefined) init_session (JStr ''peer0'')
      (Some ''nochannel'') (JStr ''5'') (Some ''Org1'') (Some ''admin'')
     = (Inr (Plain (JStr ''Error: Channel nochannel was not defined in the connection profile'')),
        \<lparr>CLIENT = Some 0, CHANNEL = None, built = 1\<rparr>) \<and>
   getTransactionByID (sample_fabric False Undefined Undefined) init_session (JStr ''peer0'')
      (Some ''nochannel'') (JStr ''tx1'') (Some ''Org1'') (Some ''admin'')
     = (Inr (Plain (JStr ''Error: Channel nochannel was not defined in the connection profile'')),
        \<lparr>CLIENT = Some 0, CHANNEL = None, built = 1\<rparr>) \<and>
   getBlockByHash (sample_fabric False Undefined Undefined) init_session (JStr ''peer0'')
      (Some ''nochannel'') (JStr ''aabb'') (Some ''Org1'') (Some ''admin'')
     = (Inr (Plain (JStr ''Error: Channel nochannel was not defined in the connection profile'')),
        \<lparr>CLIENT = Some 0, CHANNEL = None, built = 1\<rparr>) \<and>
   getChannelInfo (sample_fabric False Undefined Undefined) init_session (JStr ''peer0'')
      (Some ''nochannel'') (Some ''Org1'') (Some ''admin'')
     = (Inr (Plain (JStr ''Error: Channel nochannel was not defined in the connection profile'')),
        \<lparr>CLIENT = Some 0, CHANNEL = None, built = 1\<rparr>)"
  using missing_channel_replies
          [of "sample_fabric False Undefined Undefined" init_session "Some ''Org1''" "Some ''admin''"
              "Some ''nochannel''" "\<lparr>CLIENT = Some 0, CHANNEL = None, built = 1\<rparr>"
              "JStr ''peer0''" "JStr ''5''" "JStr ''tx1''" "JStr ''aabb''"]
  by (simp add: getChannel_def getClientForOrg_def sample_fabric_def init_session_def
        name_or_def name_truthy_def name_toString_def)

text \<open>
  The claim as the specification states it fails: for a channel name the profile does
  not define, \<^verbatim>\<open>getBlockByNumber\<close> returns a string, not a \<^verbatim>\<open>QueryResult\<close> with code
  202.
\<close>

theorem getBlockByNumber_missing_channel_counterexample:
  "fst (getBlockByNumber (sample_fabric False Undefined Undefined) init_session (JStr ''peer0'')
          (Some ''nochannel'') (JStr ''5'') (Some ''Org1'') (Some ''admin''))
     = Inr (Plain (JStr ''Error: Channel nochannel was not defined in the connection profile'')) \<and>
   \<not> (\<exists>r. fst (getBlockByNumber (sample_fabric False Undefined Undefined) init_session (JStr ''peer0'')
                 (Some ''nochannel'') (JStr ''5'') (Some ''Org1'') (Some ''admin'')) = Inr r
            \<and> failure_202 r)"
  by (simp add: getBlockByNumber_def ledger_query_def getChannel_def getClientForOrg_def
        sample_fabric_def init_session_def name_or_def name_truthy_def name_toString_def
        bind_def try_catch_def channel_not_defined_def failure_202_def)

subsection \<open>The \<^verbatim>\<open>createReturn\<close> that \<^verbatim>\<open>common.js\<close> does not define\<close>

text \<open>
  Every path through the \<^verbatim>\<open>try\<close> block of \<^verbatim>\<open>queryChaincode\<close> ends in a call of
  \<^verbatim>\<open>common.createReturn\<close> or throws before it, so the block always throws; and the
  handler of line 90 calls \<^verbatim>\<open>common.createReturn\<close> itself.
\<close>

lemma bind_throws: "(\<And>v. isl (f v)) \<Longrightarrow> isl (bind m f)"
  by (cases m) (simp_all add: bind_def)


lemma createReturn_throws: "isl (createReturn code p m d)"
  by (simp add: createReturn_def)






subsection \<open>The endorser error whose message is not JSON\<close>

text \<open>
  Whatever is thrown between lines 65 and 67, the \<^verbatim>\<open>SyntaxError\<close> of a message that
  is not JSON as well as the \<^verbatim>\<open>TypeError\<close> of \<^verbatim>\<open>createReturn\<close>, the handler of line 68
  throws a \<^verbatim>\<open>ReferenceError\<close>.
\<close>

lemma endorser_error_ReferenceError:
  "endorser_error F (JErr n m) = Inl (ReferenceError ''convertObj'')"
proof -
  have "isl (bind (json_parse F m) (\<lambda>convertObj.
          bind (get_prop convertObj ''status'') (\<lambda>status.
          bind (get_prop convertObj ''msg'') (\<lambda>msg.
            createReturn status (JStr '''') msg msg))))"
    by (intro bind_throws createReturn_throws)
  then show ?thesis
    by (auto simp: endorser_error_def bind_def try_catch_def unbound_def isl_def)
qed

text \<open>
  Claim C5. The claim asks for a \<^verbatim>\<open>QueryResult\<close> with code 202 and the raw error text
  as message and detail when the message of the endorser error does not parse, and
  that no exception propagates. For the endorser error \<^verbatim>\<open>chaincode failed\<close> the
  handler of line 70 reads \<^verbatim>\<open>convertObj\<close> outside its scope and throws
  \<^verbatim>\<open>ReferenceError: convertObj is not defined\<close>; the outer handler catches that one,
  and its call of \<^verbatim>\<open>common.createReturn\<close> throws the \<^verbatim>\<open>TypeError\<close> that leaves
  \<^verbatim>\<open>queryChaincode\<close>.
\<close>

theorem queryChaincode_unparsed_endorser_error:
  "endorser_error (sample_fabric False (JArr [JArr [JErr ''Error'' ''chaincode failed'']]) Undefined)
      (JErr ''Error'' ''chaincode failed'')
     = Inl (Exn ''ReferenceError'' ''convertObj is not defined'') \<and>
   queryChaincode (sample_fabric False (JArr [JArr [JErr ''Error'' ''chaincode failed'']]) Undefined)
      init_session (JArr [JStr ''peer0'']) (Some ''mychannel'') (JStr ''mycc'') (JStr ''query'')
      (JArr [JStr ''a'']) (Some ''Org1'') (Some ''admin'')
     = (Inl (Exn ''TypeError'' ''common.createReturn is not a function''),
        \<lparr>CLIENT = Some 0, CHANNEL = Some 7, built = 1\<rparr>)"
  by code_simp

section \<open>The block decoder: properties\<close>

subsection \<open>The handler of \<^verbatim>\<open>crawlBlock\<close>\<close>

text \<open>
  Whatever the \<^verbatim>\<open>try\<close> block throws, the handler throws in turn. A block without
  transaction data would give \<^verbatim>\<open>null\<close>.
\<close>

lemma crawlBlock_handler_rethrows:
  assumes "fst (crawlBlock_body F s b option) = Inl e"
  shows "fst (crawlBlock F s b option) = Inl (ReferenceError ''error'')"
  using assms by (cases "crawlBlock_body F s b option") (simp add: crawlBlock_def try_catch_def unbound_def)

lemma crawl_result_no_transaction_data:
  assumes "truthy blockResult"
    and "get_path blockResult [''data'', ''data''] = Inr txs" and "\<not> truthy txs"
  shows "crawl_result blockResult = Inr None"
  using assms by (simp add: crawl_result_def bind_def)

text \<open>
  Claim C3. The claim asks that no exception leaves \<^verbatim>\<open>crawlBlock\<close>. The handler is
  \<^verbatim>\<open>catch (err)\<close> and reads \<^verbatim>\<open>error\<close>: for block 5 of the sample network, whose only
  entry has no payload, what the \<^verbatim>\<open>try\<close> block throws is caught and a
  \<^verbatim>\<open>ReferenceError\<close> leaves the call.
\<close>

theorem crawlBlock_malformed_entry_throws:
  "fst (crawlBlock (sample_fabric False Undefined (sample_block [JObj []])) init_session
          (JNum 5) (JStr ''byNumber''))
     = Inl (Exn ''ReferenceError'' ''error is not defined'')"
  by code_simp

subsection \<open>The DER encoding decodes to what was encoded\<close>

text \<open>The recursive equations of the byte encoders are unfolded by hand below.\<close>

declare nat_bytes.simps [simp del] int_bytes.simps [simp del]

lemma be_nat_snoc: "be_nat (bs @ [b]) = be_nat bs * 256 + unat b"
  by (simp add: be_nat_def)

lemma unat_byte_of_nat: "n < 256 \<Longrightarrow> unat (of_nat n :: byte) = n"
  by (simp add: unat_of_nat)

lemma be_nat_nat_bytes: "be_nat (nat_bytes n) = n"
proof (induction n rule: nat_bytes.induct)
  case (1 n)
  show ?case
  proof (cases "n = 0")
    case True
    then show ?thesis by (simp add: nat_bytes.simps be_nat_def)
  next
    case False
    then have "nat_bytes n = nat_bytes (n div 256) @ [of_nat (n mod 256)]"
      by (subst nat_bytes.simps) simp
    with 1 False show ?thesis
      by (simp add: be_nat_snoc unat_byte_of_nat)
  qed
qed

lemma length_nat_bytes: "n < 256 ^ k \<Longrightarrow> length (nat_bytes n) \<le> k"
proof (induction k arbitrary: n)
  case 0
  then show ?case by (simp add: nat_bytes.simps)
next
  case (Suc k)
  show ?case
  proof (cases "n = 0")
    case True
    then show ?thesis by (simp add: nat_bytes.simps)
  next
    case False
    then have eq: "nat_bytes n = nat_bytes (n div 256) @ [of_nat (n mod 256)]"
      by (subst nat_bytes.simps) simp
    from Suc.prems have "n div 256 < 256 ^ k"
      by (simp add: less_mult_imp_div_less mult.commute)
    from Suc.IH[OF this] eq show ?thesis by simp
  qed
qed

lemma nat_bytes_head: "0 < n \<Longrightarrow> nat_bytes n \<noteq> [] \<and> hd (nat_bytes n) \<noteq> 0"
proof (induction n rule: nat_bytes.induct)
  case (1 n)
  then have eq: "nat_bytes n = nat_bytes (n div 256) @ [of_nat (n mod 256)]"
    by (subst nat_bytes.simps) simp
  show ?case
  proof (cases "n div 256 = 0")
    case True
    then have "n < 256" by (simp add: div_eq_0_iff)
    with 1(2) have "(of_nat n :: byte) \<noteq> 0"
      by (metis unat_byte_of_nat unat_0 less_numeral_extra(3))
    with eq True \<open>n < 256\<close> show ?thesis
      by (simp add: nat_bytes.simps)
  next
    case False
    with 1 have "nat_bytes (n div 256) \<noteq> [] \<and> hd (nat_bytes (n div 256)) \<noteq> 0"
      by simp
    with eq show ?thesis by simp
  qed
qed

lemma decode_len_der_len:
  assumes "n < 2 ^ 32"
  shows "decode_len (der_len n @ rest) = Some (n, rest)"
proof (cases "n < 128")
  case True
  then show ?thesis
    by (simp add: der_len_def decode_len_def unat_byte_of_nat)
next
  case False
  define L where "L = length (nat_bytes n)"
  from assms have "n < 256 ^ 4" by simp
  then have L4: "L \<le> 4" unfolding L_def by (rule length_nat_bytes)
  from False have "0 < n" by simp
  then have ne: "nat_bytes n \<noteq> []" and hd0: "hd (nat_bytes n) \<noteq> 0"
    using nat_bytes_head by auto
  then have L1: "0 < L" unfolding L_def by simp
  have u: "unat (of_nat (128 + L) :: byte) = 128 + L"
    using L4 unat_byte_of_nat[of "128 + L"] by simp
  have hdr: "hd (nat_bytes n @ rest) = hd (nat_bytes n)"
    using ne by simp
  show ?thesis
    using False u L1 L4 hd0 hdr
    by (simp add: der_len_def decode_len_def Let_def L_def[symmetric] be_nat_nat_bytes)
qed

lemma decode_tlv_der_tlv:
  assumes "length content < 2 ^ 32"
  shows "decode_tlv tag (der_tlv tag content @ rest) = Some (content, rest)"
  using decode_len_der_len[OF assms, of "content @ rest"]
  by (simp add: der_tlv_def decode_tlv_def)

lemma int_bytes_small: "- 128 \<le> i \<Longrightarrow> i < 128 \<Longrightarrow> int_bytes i = [of_int i]"
  by (subst int_bytes.simps) simp

lemma int_bytes_large:
  "\<not> (- 128 \<le> i \<and> i < 128) \<Longrightarrow> int_bytes i = int_bytes (i div 256) @ [of_int (i mod 256)]"
  by (subst int_bytes.simps) auto

lemma int_bytes_nonempty: "int_bytes i \<noteq> []"
  by (cases "- 128 \<le> i \<and> i < 128") (simp_all add: int_bytes_small int_bytes_large)

lemma signed_value_snoc: "bs \<noteq> [] \<Longrightarrow> signed_value (bs @ [c]) = signed_value bs * 256 + uint c"
  by (cases bs) (simp_all add: signed_value_def)

lemma sint_byte_of_int: "- 128 \<le> i \<Longrightarrow> i < 128 \<Longrightarrow> sint (of_int i :: byte) = i"
  by (simp add: sint_sbintrunc' signed_take_bit_int_eq_self)

lemma uint_byte_of_int_mod: "uint (of_int (i mod 256) :: byte) = i mod 256"
  by (simp add: uint_word_of_int)

lemma signed_value_int_bytes: "signed_value (int_bytes i) = i"
proof (induction i rule: int_bytes.induct)
  case (1 i)
  show ?case
  proof (cases "- 128 \<le> i \<and> i < 128")
    case True
    then show ?thesis
      by (simp add: int_bytes_small signed_value_def sint_byte_of_int)
  next
    case False
    with 1 have "signed_value (int_bytes (i div 256)) = i div 256" by simp
    with False show ?thesis
      by (simp add: int_bytes_large signed_value_snoc int_bytes_nonempty uint_byte_of_int_mod)
  qed
qed

lemma minimal_int_snoc: "2 \<le> length bs \<Longrightarrow> minimal_int (bs @ [c]) = minimal_int bs"
  by (cases bs; cases "tl bs") auto

lemma length_int_bytes_large: "\<not> (- 128 \<le> i \<and> i < 128) \<Longrightarrow> 2 \<le> length (int_bytes i)"
  using int_bytes_nonempty[of "i div 256"]
  by (cases "int_bytes (i div 256)") (simp_all add: int_bytes_large)

lemma byte_less_128: "0 \<le> k \<Longrightarrow> k < 256 \<Longrightarrow> ((of_int k :: byte) < 0x80) = (k < 128)"
  by (simp add: word_less_def uint_word_of_int)

lemma minimal_int_int_bytes: "minimal_int (int_bytes i)"
proof (induction i rule: int_bytes.induct)
  case (1 i)
  show ?case
  proof (cases "- 128 \<le> i \<and> i < 128")
    case True
    then show ?thesis by (simp add: int_bytes_small)
  next
    case False
    note large = False
    show ?thesis
    proof (cases "- 128 \<le> i div 256 \<and> i div 256 < 128")
      case True
      then have eq: "int_bytes i = [of_int (i div 256), of_int (i mod 256)]"
        using large by (simp add: int_bytes_large int_bytes_small)
      have lo: "((of_int (i mod 256) :: byte) < 0x80) = (i mod 256 < 128)"
        by (rule byte_less_128) simp_all
      have z: "(of_int (i div 256) :: byte) = 0 \<longleftrightarrow> i div 256 = 0"
        using True by (metis sint_byte_of_int sint_0 of_int_0)
      have m: "(of_int (i div 256) :: byte) = 0xFF \<longleftrightarrow> i div 256 = - 1"
      proof
        assume "(of_int (i div 256) :: byte) = 0xFF"
        then have "sint (of_int (i div 256) :: byte) = sint (0xFF :: byte)" by simp
        then show "i div 256 = - 1" using True by (simp add: sint_byte_of_int)
      next
        assume "i div 256 = - 1"
        then show "(of_int (i div 256) :: byte) = 0xFF" by simp
      qed
      have a: "i div 256 = 0 \<Longrightarrow> 128 \<le> i mod 256"
        using large by (simp add: div_eq_0_iff) presburger
      have b: "i div 256 = - 1 \<Longrightarrow> i mod 256 < 128"
        using large by presburger
      show ?thesis
        unfolding eq using lo z m a b by (auto simp: not_less[symmetric])
    next
      case False
      with 1 large have "minimal_int (int_bytes (i div 256))" by simp
      moreover have "2 \<le> length (int_bytes (i div 256))"
        using False by (rule length_int_bytes_large)
      ultimately show ?thesis
        using large by (simp add: int_bytes_large minimal_int_snoc)
    qed
  qed
qed

lemma decode_int_int_bytes: "decode_int (int_bytes i) = Some i"
  by (simp add: decode_int_def int_bytes_nonempty minimal_int_int_bytes signed_value_int_bytes)

lemma length_der_tlv: "length content \<le> length (der_tlv tag content)"
  by (simp add: der_tlv_def)

lemma der_header_round_trip_aux:
  assumes "length (der_header n p d) < 2 ^ 32"
  shows "der_decode_header (der_header n p d) = Some (n, p, d)"
proof -
  define T1 where "T1 = der_tlv 0x02 (int_bytes n)"
  define T2 where "T2 = der_tlv 0x04 p"
  define T3 where "T3 = der_tlv 0x04 d"
  have total: "length (T1 @ T2 @ T3) < 2 ^ 32"
    using assms length_der_tlv[of "T1 @ T2 @ T3" "0x30"]
    by (simp add: der_header_def T1_def T2_def T3_def)
  have l1: "length (int_bytes n) < 2 ^ 32"
    using total length_der_tlv[of "int_bytes n" "0x02"] by (simp add: T1_def)
  have l2: "length p < 2 ^ 32"
    using total length_der_tlv[of p "0x04"] by (simp add: T2_def)
  have l3: "length d < 2 ^ 32"
    using total length_der_tlv[of d "0x04"] by (simp add: T3_def)
  have outer: "decode_tlv 0x30 (der_header n p d) = Some (T1 @ T2 @ T3, [])"
    using decode_tlv_der_tlv[OF total, of "0x30" "[]"]
    by (simp add: der_header_def T1_def T2_def T3_def)
  have f1: "decode_tlv 0x02 (T1 @ T2 @ T3) = Some (int_bytes n, T2 @ T3)"
    unfolding T1_def using l1 by (rule decode_tlv_der_tlv)
  have f2: "decode_tlv 0x04 (T2 @ T3) = Some (p, T3)"
    unfolding T2_def using l2 by (rule decode_tlv_der_tlv)
  have f3: "decode_tlv 0x04 T3 = Some (d, [])"
    using decode_tlv_der_tlv[OF l3, of "0x04" "[]"] by (simp add: T3_def)
  show ?thesis
    by (simp add: der_decode_header_def outer f1 f2 f3 decode_int_int_bytes)
qed

lemma asn_encode_header:
  "asn_encode_der headerAsn
     (JObj [(''Number'', JNum n), (''PreviousHash'', JBuf p), (''DataHash'', JBuf d)])
   = Inr (der_header n p d)"
  by (simp add: asn_encode_der_def headerAsn_def bind_def der_header_def)

text \<open>
  Claim C6. The bytes that the encoder of \<^verbatim>\<open>_generateBlockHash\<close> produces for a number
  and two hashes are the DER sequence of the three, and a decoder of DER reads the same
  number and the same two hashes back from them, for every encoding shorter than
  \<open>2\<^sup>3\<^sup>2\<close> bytes.
\<close>

theorem der_header_round_trip:
  assumes "length (der_header n p d) < 2 ^ 32"
  shows "asn_encode_der headerAsn
           (JObj [(''Number'', JNum n), (''PreviousHash'', JBuf p), (''DataHash'', JBuf d)])
           = Inr (der_header n p d) \<and>
         der_decode_header (der_header n p d) = Some (n, p, d)"
  using der_header_round_trip_aux[OF assms] asn_encode_header[of n p d] by simp

lemma der_header_example: "der_header (- 129) [0xaa] [0xbb, 0xcc] = [0x30, 0x0b, 0x02, 0x02, 0xff, 0x7f, 0x04, 0x01, 0xaa, 0x04, 0x02, 0xbb, 0xcc]"
  by code_simp

lemma der_header_example_length: "length (der_header (- 129) [0xaa] [0xbb, 0xcc]) < 2 ^ 32"
  by (simp add: der_header_example)

theorem der_header_round_trip_witness:
  "length (der_header (- 129) [0xaa] [0xbb, 0xcc]) < 2 ^ 32 \<and>
   der_header (- 129) [0xaa] [0xbb, 0xcc]
     = [0x30, 0x0b, 0x02, 0x02, 0xff, 0x7f, 0x04, 0x01, 0xaa, 0x04, 0x02, 0xbb, 0xcc] \<and>
   der_decode_header [0x30, 0x0b, 0x02, 0x02, 0xff, 0x7f, 0x04, 0x01, 0xaa, 0x04, 0x02, 0xbb, 0xcc]
     = Some (- 129, [0xaa], [0xbb, 0xcc])"
  using der_header_round_trip[OF der_header_example_length] der_header_example der_header_example_length by simp

subsection \<open>The header hash\<close>

text \<open>
  Were \<^verbatim>\<open>asn\<close> and \<^verbatim>\<open>sha\<close> bound, line 313 would still not hash the number of the
  header: \<^verbatim>\<open>parseInt\<close> gives a double, so two block numbers above \<open>2\<^sup>5\<^sup>3\<close> that round
  to the same double would be encoded, and hashed, alike.
\<close>

lemma parseInt_rounds:
  "parseInt (JStr ''9007199254740993'') Undefined = JNum 9007199254740992"
  by code_simp

text \<open>
  Claim C1. The claim asks for the SHA-256 digest of the DER encoding of the header.
  \<^verbatim>\<open>_generateBlockHash\<close> returns no digest: for every header its first statement,
  \<^verbatim>\<open>asn.define(...)\<close> at line 305, throws \<^verbatim>\<open>ReferenceError: asn is not defined\<close>.
\<close>

theorem generateBlockHash_throws:
  "generateBlockHash hdr = Inl (Exn ''ReferenceError'' ''asn is not defined'')"
  by (simp add: generateBlockHash_def bind_def unbound_def ReferenceError_def)

subsection \<open>One record for every transaction entry\<close>

text \<open>
  The callback of lines 351 to 363, were it reached: \<^verbatim>\<open>forEach\<close> gives one record for
  every entry, in the order of the entries, or throws at the first entry it cannot
  read. An endorser transaction with an empty list of actions gets an empty
  \<^verbatim>\<open>ns_rwset\<close>; an entry whose \<^verbatim>\<open>payload.data\<close> has no \<^verbatim>\<open>actions\<close>, as in a
  configuration transaction, makes line 357 throw.
\<close>

lemma crawl_txs_in_order:
  assumes "crawl_txs ds = Inr ts"
  shows "length ts = length ds \<and> (\<forall>i < length ds. crawl_tx (ds ! i) = Inr (ts ! i))"
  using assms
proof (induction ds arbitrary: ts)
  case Nil
  then show ?case by simp
next
  case (Cons d ds)
  from Cons.prems obtain t ts' where t: "crawl_tx d = Inr t" and ts': "crawl_txs ds = Inr ts'"
    and eq: "ts = t # ts'"
    by (auto simp: bind_def split: sum.splits)
  from Cons.IH[OF ts'] t eq show ?case
    by (auto simp: nth_Cons split: nat.splits)
qed

lemma crawl_txs_example:
  "crawl_txs [sample_entry ''tx1'' [sample_action], sample_entry ''tx2'' []]
     = Inr [\<lparr>timestamp = JStr ''2019-01-01'', channel_id = JStr ''mychannel'', tx_id = JStr ''tx1'',
             tx_type = JStr ''ENDORSER_TRANSACTION'',
             ns_rwset = JArr [JObj [(''namespace'', JStr ''mycc'')]]\<rparr>,
            \<lparr>timestamp = JStr ''2019-01-01'', channel_id = JStr ''mychannel'', tx_id = JStr ''tx2'',
             tx_type = JStr ''ENDORSER_TRANSACTION'', ns_rwset = JArr []\<rparr>]"
  by code_simp

lemma crawl_tx_config_entry:
  "crawl_tx sample_config_entry = Inl (cannot_read ''0'' Undefined)"
  by code_simp

text \<open>
  Claim C2. The claim asks for a block with one record for each of the \<open>k\<close> entries.
  \<^verbatim>\<open>crawlBlock\<close> returns no block: whatever the arguments, the network and the session,
  line 329 throws \<^verbatim>\<open>ReferenceError: orgName is not defined\<close>, the handler throws in
  turn, and the session is as it was. For the block of the sample network with two
  entries, what the lines after the fetch make of it is the \<^verbatim>\<open>ReferenceError\<close> of
  \<^verbatim>\<open>_generateBlockHash\<close>.
\<close>

theorem crawlBlock_returns_no_block:
  "crawlBlock F s blockNumberOrHash option = (Inl (Exn ''ReferenceError'' ''error is not defined''), s) \<and>
   crawl_result (sample_block [sample_entry ''tx1'' [sample_action], sample_entry ''tx2'' []])
     = Inl (Exn ''ReferenceError'' ''asn is not defined'')"
proof
  show "crawlBlock F s blockNumberOrHash option = (Inl (Exn ''ReferenceError'' ''error is not defined''), s)"
    by (simp add: crawlBlock_def crawlBlock_body_def crawl_fetch_def bind_def try_catch_def
          unbound_def ReferenceError_def)
  show "crawl_result (sample_block [sample_entry ''tx1'' [sample_action], sample_entry ''tx2'' []])
     = Inl (Exn ''ReferenceError'' ''asn is not defined'')"
    by code_simp
qed

end
